theory Spec2Isabelle
  imports Complex_Main "HOL-Library.Word"
begin

section \<open>JavaScript strings and arrays\<close>

text \<open>
  A JavaScript string is modelled as a \<^typ>\<open>string\<close>, the list of its code units in
  UTF-8. The operations the program uses on strings (concatenation, equality,
  \<^verbatim>\<open>startsWith\<close>, \<^verbatim>\<open>includes\<close>, \<^verbatim>\<open>join\<close>) give the same answers on UTF-8 bytes as on
  UTF-16 code units. The only characters outside ASCII in the source are the two arrows of
  the Markdown prompt.
\<close>

fun startsWith :: "string \<Rightarrow> string \<Rightarrow> bool" where
  "startsWith s [] = True"
| "startsWith [] (c # cs) = False"
| "startsWith (x # xs) (c # cs) = (x = c \<and> startsWith xs cs)"

text \<open>\<^verbatim>\<open>hay.includes(needle)\<close>; the name \<^verbatim>\<open>includes\<close> is reserved in Isabelle.\<close>

fun str_includes :: "string \<Rightarrow> string \<Rightarrow> bool" where
  "str_includes [] n = (n = [])"
| "str_includes (x # xs) n = (startsWith (x # xs) n \<or> str_includes xs n)"

text \<open>\<^verbatim>\<open>lines.join(sep)\<close>\<close>

fun join :: "string list \<Rightarrow> string \<Rightarrow> string" where
  "join [] sep = []"
| "join [x] sep = x"
| "join (x # y # ys) sep = x @ sep @ join (y # ys) sep"

text \<open>The template literal \<^verbatim>\<open>`${n}`\<close> of a non-negative integer: its decimal digits.\<close>

definition digit :: "nat \<Rightarrow> char" where
  "digit d = ''0123456789'' ! d"

fun String_nat :: "nat \<Rightarrow> string" where
  "String_nat n = (if n < 10 then [digit n] else String_nat (n div 10) @ [digit (n mod 10)])"

declare String_nat.simps [simp del]

text \<open>
  \<^verbatim>\<open>s.toLowerCase()\<close> on the ASCII letters. The program only compares the lowered provider
  name with \<^verbatim>\<open>"openrouter"\<close>, and no character outside ASCII lowers to one of its letters.
\<close>

definition lower_char :: "char \<Rightarrow> char" where
  "lower_char c =
     (if 65 \<le> (of_char c :: nat) \<and> (of_char c :: nat) \<le> 90 then char_of (of_char c + 32 :: nat) else c)"

definition toLowerCase :: "string \<Rightarrow> string" where
  "toLowerCase s = map lower_char s"

text \<open>\<^verbatim>\<open>a || b\<close> on a string that may be undefined: the empty string is falsy.\<close>

definition or_string :: "string option \<Rightarrow> string \<Rightarrow> string" where
  "or_string a b = (case a of None \<Rightarrow> b | Some s \<Rightarrow> if s = [] then b else s)"

definition newline :: string where
  "newline = [CHR 0x0A]"

text \<open>The right arrow U+2192 of the Markdown prompt, in UTF-8.\<close>

definition arrow :: string where
  "arrow = [CHR 0xE2, CHR 0x86, CHR 0x92]"


section \<open>The system prompt\<close>

text \<open>
  The repository holds two generations of the endpoint. The multi-page generation
  (\<^verbatim>\<open>src/unnamed/part_002\<close>, served to the client of \<^verbatim>\<open>src/app/page.tsx\<close>) takes the fields
  \<^verbatim>\<open>file\<close>, \<^verbatim>\<open>files[]\<close>, \<^verbatim>\<open>targetLang\<close> and \<^verbatim>\<open>format\<close>; its definitions carry the suffix
  \<open>_multi\<close>. The single-image generation (\<^verbatim>\<open>src/app/api/ocr/route.ts\<close>, served to the
  client of \<^verbatim>\<open>src/unnamed/part_000\<close> and \<^verbatim>\<open>part_001\<close>) takes \<^verbatim>\<open>file\<close> and \<^verbatim>\<open>targetLang\<close>
  only; its definitions carry the suffix \<open>_single\<close>. What both share is defined once.
\<close>

text \<open>\<^verbatim>\<open>targetLang && targetLang !== "auto"\<close>, as a truth value.\<close>

definition shouldTranslate :: "string \<Rightarrow> bool" where
  "shouldTranslate targetLang \<longleftrightarrow> targetLang \<noteq> [] \<and> targetLang \<noteq> ''auto''"

definition languageDirective :: "string \<Rightarrow> string" where
  "languageDirective targetLang =
     (if shouldTranslate targetLang
      then ''Output language: '' @ targetLang @ ''. Translate ALL textual content into '' @ targetLang
           @ '', including brand and product names, headings, labels, tables and lists. Do NOT mix languages. Preserve numbers, currency symbols, and layout semantics.''
      else ''Output language: keep the original language; do NOT translate.'')"

definition jsonPromptHead :: "string list" where
  "jsonPromptHead =
    [''You are a reliable, precise vision OCR engine.'',
     ''Goal: detect the document type and return STRICT JSON only (no extra text).'']"

definition jsonPromptTail :: "string list" where
  "jsonPromptTail =
    [''Rules:'',
     ''- Return ONLY valid JSON (no prose, no code fences).'',
     ''- No hallucinations: omit unknown fields; use 'UNKNOWN' if unreadable.'',
     ''- Keys MUST be camelCase; values plain strings/numbers/arrays/objects.'',
     ''- Include language (BCP-47) and text in reading order.'',
     ''Suggested flexible schema (include only relevant keys):'',
     ''{'',
     ''  documentType: string,'',
     ''  language?: string,'',
     ''  title?: string,'',
     ''  text: string,'',
     ''  keyValues?: [{ key: string, value: string }],'',
     ''  sections?: [{ title?: string, keyValues?: [{ key: string, value: string }], paragraphs?: string[] }],'',
     ''  lists?: [{ ordered: boolean, items: string[] }],'',
     ''  tables?: [{ headers?: string[], rows: string[][] }],'',
     ''  entities?: [{ label: string, value: string }],'',
     ''  totals?: { currency?: string, subtotal?: number, tax?: number, tip?: number, total?: number },'',
     ''  parties?: { seller?: { name?: string, address?: string, vatId?: string }, buyer?: { name?: string, address?: string, vatId?: string } },'',
     ''  references?: { invoiceNumber?: string, orderNumber?: string, transactionId?: string }'',
     ''}'',
     ''Constraints:'',
     ''- Dates ISO when possible (YYYY-MM-DD); amounts as numbers (no currency symbol).'',
     ''- Preserve numbers, currency symbols in text where applicable.'']"

definition markdownPromptHead :: "string list" where
  "markdownPromptHead =
    [''You are a reliable, precise vision OCR engine.'',
     ''Goal: accurately extract the text and structure from the image and return valid Markdown.'',
     ''General rules:'']"

definition markdownPromptTail :: "string list" where
  "markdownPromptTail =
    [''- Do not hallucinate. If something is missing or unreadable, use 'UNKNOWN'.'',
     ''- Preserve the logical reading order (left '' @ arrow @ '' right, top '' @ arrow @ '' bottom).'',
     ''- Preserve case, numbers, dates, symbols, units, and punctuation.'',
     ''- For tables, render as proper Markdown tables with headers if present.'',
     ''- For lists, use Markdown lists (unordered or ordered).'',
     ''- For headings, use consistent Markdown levels (#, ##, ###).'',
     ''- Do not add explanations beyond OCR content.'',
     ''- Return only valid Markdown.'']"

text \<open>
  \<^verbatim>\<open>buildSystemPrompt(targetLang, format)\<close> of the multi-page generation. The parameter
  \<^verbatim>\<open>format\<close> is typed \<^verbatim>\<open>"markdown" | "json"\<close> in the source, but the caller casts an
  arbitrary string to that type, so it is a string here.
\<close>

definition buildSystemPrompt_multi :: "string \<Rightarrow> string \<Rightarrow> string" where
  "buildSystemPrompt_multi targetLang format =
     (if format = ''json''
      then join (jsonPromptHead @ languageDirective targetLang # jsonPromptTail) newline
      else join (markdownPromptHead @ languageDirective targetLang # markdownPromptTail) newline)"

text \<open>\<^verbatim>\<open>buildSystemPrompt(targetLang)\<close> of the single-image generation: the Markdown prompt.\<close>

definition buildSystemPrompt_single :: "string \<Rightarrow> string" where
  "buildSystemPrompt_single targetLang =
     join (markdownPromptHead @ languageDirective targetLang # markdownPromptTail) newline"


section \<open>The HTTP data model\<close>

text \<open>
  A \<^verbatim>\<open>File\<close> of the form data: its name, its declared MIME type and its bytes. The
  attribute \<^verbatim>\<open>size\<close> of a file is the number of its bytes.
\<close>

record File =
  file_name :: string
  file_type :: string
  file_bytes :: "8 word list"

definition file_size :: "File \<Rightarrow> nat" where
  "file_size f = length (file_bytes f)"

text \<open>A value of a form field (\<^verbatim>\<open>FormDataEntryValue\<close>): a string or a file.\<close>

datatype entry = Str string | FileEntry File

text \<open>
  \<^verbatim>\<open>FormData\<close> is the list of its fields in submission order; a name may occur several
  times. \<^verbatim>\<open>get\<close> gives the first value of a name, \<^verbatim>\<open>getAll\<close> all of them in order.
\<close>

type_synonym formData = "(string \<times> entry) list"

definition form_get :: "formData \<Rightarrow> string \<Rightarrow> entry option" where
  "form_get form k = map_of form k"

definition form_getAll :: "formData \<Rightarrow> string \<Rightarrow> entry list" where
  "form_getAll form k = map snd (filter (\<lambda>p. fst p = k) form)"

text \<open>
  \<^verbatim>\<open>String(v || d)\<close> for a field value \<^verbatim>\<open>v\<close> that may be \<^verbatim>\<open>null\<close>: an absent field and the
  empty string are falsy; a file is truthy and converts to \<^verbatim>\<open>"[object File]"\<close>.
\<close>

fun String_or :: "entry option \<Rightarrow> string \<Rightarrow> string" where
  "String_or None d = d"
| "String_or (Some (Str s)) d = (if s = [] then d else s)"
| "String_or (Some (FileEntry f)) d = ''[object File]''"

text \<open>A thrown value: an \<^verbatim>\<open>Error\<close> with its message, or anything else.\<close>

datatype thrown = JsError string | NonError

text \<open>
  The request as the handler sees it: the \<^verbatim>\<open>content-type\<close> header (absent or a string)
  and what \<^verbatim>\<open>req.formData()\<close> gives when it is awaited, the parsed fields or a thrown
  value (a body that is not well-formed multipart data).
\<close>

record request =
  content_type :: "string option"
  formData :: "thrown + formData"

text \<open>
  JSON values, as a JSON text denotes them and as a JSON body carries them. A number of
  JSON is finite.
\<close>

datatype json =
    JNull
  | JBool bool
  | JNumber rat
  | JString string
  | JArray "json list"
  | JObject "(string \<times> json) list"

text \<open>
  The JavaScript values \<^verbatim>\<open>JSON.parse\<close> returns. A number of JavaScript is a double: a
  finite value, or one of the special values. \<^verbatim>\<open>JSON.parse\<close> gives \<^verbatim>\<open>Infinity\<close> for a number
  text beyond the range of doubles, such as \<^verbatim>\<open>1e999\<close>.
\<close>

datatype number = Finite rat | PosInfinity | NegInfinity | NaN

datatype jsvalue =
    JSNull
  | JSBool bool
  | JSNumber number
  | JSString string
  | JSArray "jsvalue list"
  | JSObject "(string \<times> jsvalue) list"

text \<open>
  \<^verbatim>\<open>JSON.stringify(data)\<close>, as the JSON value its text denotes: a number that is not finite
  is written \<^verbatim>\<open>null\<close>, alone, in an array and as the value of a key.
\<close>

primrec JSON_stringify :: "jsvalue \<Rightarrow> json" where
  "JSON_stringify JSNull = JNull"
| "JSON_stringify (JSBool b) = JBool b"
| "JSON_stringify (JSNumber n) = (case n of Finite q \<Rightarrow> JNumber q | _ \<Rightarrow> JNull)"
| "JSON_stringify (JSString s) = JString s"
| "JSON_stringify (JSArray vs) = JArray (map JSON_stringify vs)"
| "JSON_stringify (JSObject kvs) = JObject (map (map_prod id JSON_stringify) kvs)"

text \<open>A JSON value as a JavaScript value.\<close>

primrec of_json :: "json \<Rightarrow> jsvalue" where
  "of_json JNull = JSNull"
| "of_json (JBool b) = JSBool b"
| "of_json (JNumber q) = JSNumber (Finite q)"
| "of_json (JString s) = JSString s"
| "of_json (JArray vs) = JSArray (map of_json vs)"
| "of_json (JObject kvs) = JSObject (map (map_prod id of_json) kvs)"

datatype body = Text string | JsonBody json

record response =
  status :: nat
  body :: body
  headers :: "(string \<times> string) list"

text \<open>
  \<^verbatim>\<open>new Response(text, { status, headers })\<close>: a text body without a \<^verbatim>\<open>content-type\<close> among
  the given headers gets the default one of the Fetch standard.
\<close>

definition new_Response :: "string \<Rightarrow> nat \<Rightarrow> (string \<times> string) list \<Rightarrow> response" where
  "new_Response text st hs =
     \<lparr>status = st, body = Text text,
      headers = (if map_of hs ''content-type'' = None
                 then hs @ [(''content-type'', ''text/plain;charset=UTF-8'')] else hs)\<rparr>"

text \<open>
  \<^verbatim>\<open>Response.json(data)\<close>: status 200, and the body is the text \<^verbatim>\<open>JSON.stringify(data)\<close>.
\<close>

definition Response_json :: "jsvalue \<Rightarrow> response" where
  "Response_json data =
     \<lparr>status = 200, body = JsonBody (JSON_stringify data),
      headers = [(''content-type'', ''application/json'')]\<rparr>"

text \<open>The argument of \<^verbatim>\<open>generateText\<close>: one user message of a text part and image parts.\<close>

datatype part = TextPart string | ImagePart string

record generateText_args =
  model :: string
  temperature :: rat
  maxSteps :: "nat option"
  system :: string
  messages :: "(string \<times> part list) list"

text \<open>
  What the handler takes from outside the repository: the process environment, the
  base64 encoder of \<^verbatim>\<open>Buffer\<close>, \<^verbatim>\<open>JSON.parse\<close> (\<open>None\<close> when it throws) and the provider
  call \<^verbatim>\<open>generateText\<close> of the client made at start-up (\<open>Inl\<close> when it throws, \<open>Inr\<close> the
  text of its result).
\<close>

record platform =
  process_env :: "string \<Rightarrow> string option"
  toBase64 :: "8 word list \<Rightarrow> string"
  JSON_parse :: "string \<Rightarrow> jsvalue option"
  generateText :: "generateText_args \<Rightarrow> thrown + string"

text \<open>
  What a run of the handler does: the response it returns, whether it called
  \<^verbatim>\<open>req.formData()\<close>, and the calls of the provider it made, in order. Console logging is
  left out.
\<close>

record outcome =
  response :: response
  formData_called :: bool
  generateText_calls :: "generateText_args list"


section \<open>The handler\<close>

definition resolveModel_multi :: "(string \<Rightarrow> string option) \<Rightarrow> string" where
  "resolveModel_multi env =
     or_string (env ''OCR_MODEL'')
       (let provider = toLowerCase (or_string (env ''OCR_PROVIDER'') ''together'') in
        if provider = ''openrouter''
        then or_string (env ''OPENROUTER_MODEL'') ''mistralai/mistral-small-3.2-24b-instruct:free''
        else or_string (env ''TOGETHER_VISION_MODEL'') ''meta-llama/Llama-4-Scout-17B-16E-Instruct'')"

definition resolveModel_single :: "(string \<Rightarrow> string option) \<Rightarrow> string" where
  "resolveModel_single env =
     or_string (env ''OCR_MODEL'')
       (let provider = toLowerCase (or_string (env ''OCR_PROVIDER'') ''together'') in
        if provider = ''openrouter''
        then or_string (env ''OPENROUTER_MODEL'') ''meta-llama/llama-4-maverick:free''
        else or_string (env ''TOGETHER_VISION_MODEL'') ''meta-llama/Llama-4-Scout-17B-16E-Instruct'')"

text \<open>\<^verbatim>\<open>const maxSize = 4 * 1024 * 1024\<close>\<close>

definition maxSize :: nat where
  "maxSize = 4 * 1024 * 1024"

text \<open>
  \<^verbatim>\<open>Math.round(x)\<close>: the nearest integer, a tie going up. A size is an integer below
  \<open>2^53\<close>, so \<^verbatim>\<open>size / 1024 / 1024\<close> is exact in a double and the rational is the value
  JavaScript rounds.
\<close>

definition Math_round :: "rat \<Rightarrow> int" where
  "Math_round x = \<lfloor>x + 1 / 2\<rfloor>"

definition sizeMB :: "nat \<Rightarrow> string" where
  "sizeMB n = String_nat (nat (Math_round (of_nat n / 1024 / 1024)))"

text \<open>The outer \<^verbatim>\<open>catch\<close>: a plain-text response of status 500 with the message.\<close>

definition failure :: "thrown \<Rightarrow> response" where
  "failure err =
     (let message = (case err of JsError m \<Rightarrow> m | NonError \<Rightarrow> ''unknown'')
      in new_Response (''Erreur: '' @ message) 500 [])"

definition translateHint :: "string \<Rightarrow> string" where
  "translateHint targetLang =
     (if shouldTranslate targetLang
      then ''Target language: '' @ targetLang @ ''. Translate ALL textual content into '' @ targetLang
           @ ''. Preserve numbers, currency symbols, and layout semantics.''
      else ''Target language: source language (no translation).'')"

text \<open>
  \<^verbatim>\<open>data:${mimeType};base64,${base64}\<close> with \<^verbatim>\<open>mimeType = f.type || "image/jpeg"\<close>. Reading
  the bytes of a file of the form data (\<^verbatim>\<open>f.arrayBuffer()\<close>) does not fail.
\<close>

definition dataUrl :: "platform \<Rightarrow> File \<Rightarrow> string" where
  "dataUrl pf f =
     (let base64 = toBase64 pf (file_bytes f);
          mimeType = (if file_type f = [] then ''image/jpeg'' else file_type f)
      in ''data:'' @ mimeType @ '';base64,'' @ base64)"

text \<open>The files of the request, as the multi-page handler collects them.\<close>

definition inputFiles :: "formData \<Rightarrow> File list" where
  "inputFiles form =
     (let single = form_get form ''file'';
          many = form_getAll form ''files[]''
      in (case single of Some (FileEntry f) \<Rightarrow> [f] | _ \<Rightarrow> [])
         @ concat (map (\<lambda>e. case e of FileEntry f \<Rightarrow> [f] | Str s \<Rightarrow> []) many))"

text \<open>
  The argument of the provider call of the multi-page generation: the resolved model, the
  temperature, the single step, the system prompt and one user message, a text part
  followed by one image part for each file, in order.
\<close>

definition generateText_args_multi :: "platform \<Rightarrow> string \<Rightarrow> string \<Rightarrow> File list \<Rightarrow> generateText_args" where
  "generateText_args_multi pf targetLang format files =
     (let dataUrls = map (dataUrl pf) files in
      \<lparr>model = resolveModel_multi (process_env pf),
       temperature = 1 / 10,
       maxSteps = Some 1,
       system = buildSystemPrompt_multi targetLang format,
       messages =
         [(''user'',
           TextPart
             (if format = ''json''
              then translateHint targetLang
                   @ '' Analyze these page image(s) and return ONLY valid JSON following the schema and rules above.''
              else translateHint targetLang
                   @ '' Analyze these page image(s), extract text and structure, and return valid Markdown.'')
           # map ImagePart dataUrls)]\<rparr>)"

text \<open>The response of the multi-page generation to the text the provider returned.\<close>

definition respond_multi :: "platform \<Rightarrow> string \<Rightarrow> string \<Rightarrow> response" where
  "respond_multi pf format text =
     (if format = ''json''
      then (case JSON_parse pf text of
              Some parsed \<Rightarrow> Response_json parsed
            | None \<Rightarrow> Response_json (JSObject [(''content'', JSString text)]))
      else new_Response text 200 [(''content-type'', ''text/markdown; charset=utf-8'')])"

text \<open>\<^verbatim>\<open>POST\<close> of the multi-page generation (\<^verbatim>\<open>src/unnamed/part_002\<close>).\<close>

definition POST_multi :: "platform \<Rightarrow> request \<Rightarrow> outcome" where
  "POST_multi pf req =
     (let contentType = or_string (content_type req) '''' in
      if \<not> str_includes contentType ''multipart/form-data''
      then \<lparr>response = new_Response ''Content-Type must be multipart/form-data'' 400 [],
            formData_called = False, generateText_calls = []\<rparr>
      else case formData req of
        Inl err \<Rightarrow> \<lparr>response = failure err, formData_called = True, generateText_calls = []\<rparr>
      | Inr form \<Rightarrow>
         (let targetLang = String_or (form_get form ''targetLang'') ''auto'';
              files = inputFiles form in
          if files = []
          then \<lparr>response = new_Response ''Missing image file(s) (JPEG/PNG only)'' 400 [],
                formData_called = True, generateText_calls = []\<rparr>
          else case find (\<lambda>f. \<not> startsWith (file_type f) ''image/'') files of
            Some f \<Rightarrow>
              \<lparr>response = new_Response
                  ''Only JPEG and PNG images are accepted (PDF must be converted client-side)'' 415 [],
               formData_called = True, generateText_calls = []\<rparr>
          | None \<Rightarrow>
             (let totalSize = foldl (\<lambda>s f. s + file_size f) 0 files in
              if totalSize > maxSize
              then \<lparr>response = new_Response
                      (''Fichiers trop volumineux ('' @ sizeMB totalSize @ ''MB > 4MB).'') 413 [],
                    formData_called = True, generateText_calls = []\<rparr>
              else
               (let format = String_or (form_get form ''format'') ''markdown'';
                    args = generateText_args_multi pf targetLang format files
                in case generateText pf args of
                  Inl err \<Rightarrow>
                    \<lparr>response = failure err, formData_called = True, generateText_calls = [args]\<rparr>
                | Inr text \<Rightarrow>
                    \<lparr>response = respond_multi pf format text,
                     formData_called = True, generateText_calls = [args]\<rparr>))))"

text \<open>The argument of the provider call of the single-image generation.\<close>

definition generateText_args_single :: "platform \<Rightarrow> string \<Rightarrow> File \<Rightarrow> generateText_args" where
  "generateText_args_single pf targetLang file =
     \<lparr>model = resolveModel_single (process_env pf),
      temperature = 2 / 10,
      maxSteps = None,
      system = buildSystemPrompt_single targetLang,
      messages =
        [(''user'',
          [TextPart (translateHint targetLang
                     @ '' Analyze this image, extract text and structure, and return valid Markdown.''),
           ImagePart (dataUrl pf file)])]\<rparr>"

text \<open>\<^verbatim>\<open>POST\<close> of the single-image generation (\<^verbatim>\<open>src/app/api/ocr/route.ts\<close>).\<close>

definition POST_single :: "platform \<Rightarrow> request \<Rightarrow> outcome" where
  "POST_single pf req =
     (let contentType = or_string (content_type req) '''' in
      if \<not> str_includes contentType ''multipart/form-data''
      then \<lparr>response = new_Response ''Content-Type must be multipart/form-data'' 400 [],
            formData_called = False, generateText_calls = []\<rparr>
      else case formData req of
        Inl err \<Rightarrow> \<lparr>response = failure err, formData_called = True, generateText_calls = []\<rparr>
      | Inr form \<Rightarrow>
         (let targetLang = String_or (form_get form ''targetLang'') ''auto'' in
          case form_get form ''file'' of
            Some (FileEntry file) \<Rightarrow>
              if \<not> startsWith (file_type file) ''image/''
                 \<or> (file_type file \<noteq> ''image/jpeg'' \<and> file_type file \<noteq> ''image/png'')
              then \<lparr>response = new_Response ''Only JPEG and PNG images are accepted'' 415 [],
                    formData_called = True, generateText_calls = []\<rparr>
              else if file_size file > maxSize
              then \<lparr>response = new_Response
                      (''Fichier trop volumineux ('' @ sizeMB (file_size file) @ ''MB > 4MB).'') 413 [],
                    formData_called = True, generateText_calls = []\<rparr>
              else
               (let args = generateText_args_single pf targetLang file
                in case generateText pf args of
                  Inl err \<Rightarrow>
                    \<lparr>response = failure err, formData_called = True, generateText_calls = [args]\<rparr>
                | Inr text \<Rightarrow>
                    \<lparr>response = new_Response text 200 [(''content-type'', ''text/markdown; charset=utf-8'')],
                     formData_called = True, generateText_calls = [args]\<rparr>)
          | _ \<Rightarrow>
              \<lparr>response = new_Response ''Missing image file (JPEG/PNG only)'' 400 [],
               formData_called = True, generateText_calls = []\<rparr>))"

text \<open>The first check of the handler: the header value contains \<^verbatim>\<open>multipart/form-data\<close>.\<close>

definition isMultipart :: "request \<Rightarrow> bool" where
  "isMultipart req \<longleftrightarrow> str_includes (or_string (content_type req) '''') ''multipart/form-data''"

text \<open>
  What it is for a header to declare multipart form data: its media type, the part of the
  value before the first semicolon, without surrounding blanks and in lower case, is
  \<^verbatim>\<open>multipart/form-data\<close>. The handler does not compute this; it is the reading of the
  header that the words of the specification call for.
\<close>

definition isSpace :: "char \<Rightarrow> bool" where
  "isSpace c \<longleftrightarrow> c = CHR '' '' \<or> c = CHR 0x09"

definition trim :: "string \<Rightarrow> string" where
  "trim s = rev (dropWhile isSpace (rev (dropWhile isSpace s)))"

definition mediaType :: "string \<Rightarrow> string" where
  "mediaType v = toLowerCase (trim (takeWhile (\<lambda>c. c \<noteq> CHR '';'') v))"

definition declaresMultipart :: "string option \<Rightarrow> bool" where
  "declaresMultipart h = (case h of None \<Rightarrow> False | Some v \<Rightarrow> mediaType v = ''multipart/form-data'')"

text \<open>The summed size of a list of files.\<close>

definition totalSize :: "File list \<Rightarrow> nat" where
  "totalSize files = sum_list (map file_size files)"

text \<open>The response that passes Markdown text through.\<close>

definition markdown_response :: "string \<Rightarrow> response" where
  "markdown_response text =
     \<lparr>status = 200, body = Text text, headers = [(''content-type'', ''text/markdown; charset=utf-8'')]\<rparr>"

text \<open>
  The image sequence as the specification words it: the singular \<^verbatim>\<open>file\<close> first, when the
  field is present and holds a file, then the files among the \<^verbatim>\<open>files[]\<close> entries in
  submission order.
\<close>

definition spec_image_sequence :: "formData \<Rightarrow> File list" where
  "spec_image_sequence form =
     (case [e. (k, e) \<leftarrow> form, k = ''file''] of FileEntry f # rest \<Rightarrow> [f] | _ \<Rightarrow> [])
     @ [f. (k, FileEntry f) \<leftarrow> form, k = ''files[]'']"


section \<open>The client preprocessor\<close>

text \<open>
  What \<^verbatim>\<open>compressImage\<close> takes from the browser: the width and height of the image once
  it is loaded (\<open>None\<close> when the file never loads, so that \<^verbatim>\<open>onload\<close> never runs), whether
  the canvas gives a 2D context, and \<^verbatim>\<open>canvas.toBlob\<close>, which hands the callback the bytes
  of the encoded canvas or \<^verbatim>\<open>null\<close>.
\<close>

record canvas =
  canvas_width :: nat
  canvas_height :: nat
  canvas_drawn :: "(File \<times> rat \<times> rat) option"

record browser =
  naturalSize :: "File \<Rightarrow> (nat \<times> nat) option"
  context2d :: bool
  toBlob :: "canvas \<Rightarrow> string \<Rightarrow> rat \<Rightarrow> 8 word list option"

text \<open>
  The new dimensions, as JavaScript numbers: the divisions are exact on rationals, and on
  doubles they differ from the rational by less than the distance to the next integer,
  the image dimensions being integers far below \<open>2^53\<close>.
\<close>

definition newDimensions :: "nat \<Rightarrow> nat \<times> nat \<Rightarrow> rat \<times> rat" where
  "newDimensions maxDimension d =
     (let width = fst d; height = snd d in
      if width > height \<and> width > maxDimension
      then (of_nat maxDimension, (of_nat height * of_nat maxDimension) / of_nat width)
      else if height > maxDimension
      then ((of_nat width * of_nat maxDimension) / of_nat height, of_nat maxDimension)
      else (of_nat width, of_nat height))"

text \<open>Assigning a number to \<^verbatim>\<open>canvas.width\<close> truncates it to an integer.\<close>

definition toUnsignedLong :: "rat \<Rightarrow> nat" where
  "toUnsignedLong x = nat \<lfloor>x\<rfloor>"

text \<open>
  \<^verbatim>\<open>compressImage(file)\<close> for a maximal dimension and a JPEG quality; \<open>None\<close> is the promise
  that never resolves.
\<close>

definition compressImage :: "browser \<Rightarrow> nat \<Rightarrow> rat \<Rightarrow> File \<Rightarrow> File option" where
  "compressImage br maxDimension quality file =
     (case naturalSize br file of
        None \<Rightarrow> None
      | Some d \<Rightarrow>
         (let (width, height) = newDimensions maxDimension d;
              c = \<lparr>canvas_width = toUnsignedLong width, canvas_height = toUnsignedLong height,
                   canvas_drawn = (if context2d br then Some (file, width, height) else None)\<rparr>
          in case toBlob br c ''image/jpeg'' quality of
               Some blob \<Rightarrow> Some \<lparr>file_name = file_name file, file_type = ''image/jpeg'', file_bytes = blob\<rparr>
             | None \<Rightarrow> Some file))"

text \<open>The single-image client (\<^verbatim>\<open>src/unnamed/part_000\<close>, \<^verbatim>\<open>part_001\<close>): 1200 and 0.8.\<close>

definition compressImage_single :: "browser \<Rightarrow> File \<Rightarrow> File option" where
  "compressImage_single br file = compressImage br 1200 (8 / 10) file"

text \<open>The multi-page client (\<^verbatim>\<open>src/app/page.tsx\<close>): 720 and 0.6.\<close>

definition compressImage_multi :: "browser \<Rightarrow> File \<Rightarrow> File option" where
  "compressImage_multi br file = compressImage br 720 (6 / 10) file"

text \<open>The longest dimension of the picture a canvas holds.\<close>

definition longest :: "canvas \<Rightarrow> nat" where
  "longest c = max (canvas_width c) (canvas_height c)"


section \<open>Example inputs\<close>

text \<open>
  A platform whose provider answers a fixed text and whose \<^verbatim>\<open>JSON.parse\<close> knows two texts,
  \<^verbatim>\<open>null\<close> and the number \<^verbatim>\<open>1e999\<close>, which is beyond the range of doubles.
\<close>

definition example_platform :: "string \<Rightarrow> platform" where
  "example_platform reply =
     \<lparr>process_env = (\<lambda>k. None), toBase64 = (\<lambda>b. ''QUJD''),
      JSON_parse = (\<lambda>s. if s = ''null'' then Some JSNull
                          else if s = ''1e999'' then Some (JSNumber PosInfinity) else None),
      generateText = (\<lambda>a. Inr reply)\<rparr>"

definition example_file :: "string \<Rightarrow> nat \<Rightarrow> File" where
  "example_file ty n = \<lparr>file_name = ''upload'', file_type = ty, file_bytes = replicate n 0\<rparr>"

definition example_request :: "string \<Rightarrow> formData \<Rightarrow> request" where
  "example_request ct form = \<lparr>content_type = Some ct, formData = Inr form\<rparr>"

text \<open>
  A header whose media type is \<^verbatim>\<open>text/plain\<close> and whose parameter holds the text
  \<^verbatim>\<open>multipart/form-data\<close> in double quotes, and a request with this header, on which
  \<^verbatim>\<open>req.formData()\<close> throws an error of the platform.
\<close>

definition example_header :: string where
  "example_header = ''text/plain; x='' @ [CHR 0x22] @ ''multipart/form-data'' @ [CHR 0x22]"

definition example_plain_request :: request where
  "example_plain_request =
     \<lparr>content_type = Some example_header,
      formData = Inl (JsError ''Content-Type was not one of multipart/form-data or application/x-www-form-urlencoded.'')\<rparr>"

text \<open>
  A browser whose pictures carry their width and a hundredth of their height in the
  first two bytes, and whose encoder fails on an empty canvas.
\<close>

definition example_browser :: browser where
  "example_browser =
     \<lparr>naturalSize = (\<lambda>f. case file_bytes f of w # h # rest \<Rightarrow> Some (unat w, 100 * unat h) | _ \<Rightarrow> None),
      context2d = True,
      toBlob = (\<lambda>c ty q. if canvas_width c = 0 \<or> canvas_height c = 0 then None
                          else Some [of_nat (canvas_width c), of_nat (canvas_height c div 100)])\<rparr>"


section \<open>Properties of the string operations\<close>

lemma startsWith_iff: "startsWith s n \<longleftrightarrow> (\<exists>vs. s = n @ vs)"
  by (induction s n rule: startsWith.induct) auto

lemma str_includes_iff: "str_includes h n \<longleftrightarrow> (\<exists>us vs. h = us @ n @ vs)"
proof (induction h)
  case Nil
  then show ?case by auto
next
  case (Cons x xs)
  show ?case
  proof
    assume "str_includes (x # xs) n"
    then consider "startsWith (x # xs) n" | "str_includes xs n" by auto
    then show "\<exists>us vs. x # xs = us @ n @ vs"
    proof cases
      case 1
      then obtain vs where "x # xs = n @ vs" by (auto simp: startsWith_iff)
      then have "x # xs = [] @ n @ vs" by simp
      then show ?thesis by blast
    next
      case 2
      then obtain us vs where "xs = us @ n @ vs" using Cons.IH by auto
      then have "x # xs = (x # us) @ n @ vs" by simp
      then show ?thesis by blast
    qed
  next
    assume "\<exists>us vs. x # xs = us @ n @ vs"
    then obtain us vs where e: "x # xs = us @ n @ vs" by blast
    show "str_includes (x # xs) n"
    proof (cases us)
      case Nil
      with e have "startsWith (x # xs) n" by (auto simp: startsWith_iff)
      then show ?thesis by simp
    next
      case (Cons u us')
      with e have "xs = us' @ n @ vs" by simp
      then have "str_includes xs n" using Cons.IH by blast
      then show ?thesis by simp
    qed
  qed
qed

lemma str_includes_middle: "str_includes (p @ n @ s) n"
  unfolding str_includes_iff by blast

lemma str_includes_left: "str_includes a n \<Longrightarrow> str_includes (a @ b) n"
  unfolding str_includes_iff by (metis append.assoc)

lemma str_includes_right: "str_includes b n \<Longrightarrow> str_includes (a @ b) n"
  unfolding str_includes_iff by (metis append.assoc)

lemma str_includes_sep:
  assumes "c \<notin> set n" and "n \<noteq> []"
  shows "str_includes (a @ c # b) n \<longleftrightarrow> str_includes a n \<or> str_includes b n"
proof
  assume "str_includes (a @ c # b) n"
  then obtain us vs where e: "a @ c # b = us @ n @ vs"
    unfolding str_includes_iff by blast
  then consider w where "a = us @ w" "w @ c # b = n @ vs"
    | w where "a @ w = us" "c # b = w @ n @ vs"
    by (auto simp: append_eq_append_conv2)
  then show "str_includes a n \<or> str_includes b n"
  proof cases
    case 1
    from 1(2) consider z where "w = n @ z" | z where "w @ z = n" "c # b = z @ vs"
      by (auto simp: append_eq_append_conv2)
    then show ?thesis
    proof cases
      case 1
      with \<open>a = us @ w\<close> have "a = us @ n @ z" by simp
      then show ?thesis unfolding str_includes_iff by blast
    next
      case 2
      show ?thesis
      proof (cases z)
        case Nil
        with 2 \<open>a = us @ w\<close> have "a = us @ n @ []" by simp
        then show ?thesis unfolding str_includes_iff by blast
      next
        case (Cons y ys)
        with 2 have "c \<in> set n" by auto
        with assms show ?thesis by simp
      qed
    qed
  next
    case 2
    show ?thesis
    proof (cases w)
      case Nil
      with 2 assms show ?thesis by (cases n) auto
    next
      case (Cons y ys)
      with 2 have "b = ys @ n @ vs" by simp
      then show ?thesis unfolding str_includes_iff by blast
    qed
  qed
next
  assume "str_includes a n \<or> str_includes b n"
  then show "str_includes (a @ c # b) n"
  proof
    assume "str_includes a n"
    then show ?thesis by (rule str_includes_left)
  next
    assume "str_includes b n"
    then have "str_includes ((a @ [c]) @ b) n" by (rule str_includes_right)
    then show ?thesis by simp
  qed
qed

lemma str_includes_join:
  assumes "c \<notin> set n" and "n \<noteq> []"
  shows "str_includes (join ls [c]) n \<longleftrightarrow> (\<exists>l\<in>set ls. str_includes l n)"
proof (induction ls "[c]" rule: join.induct)
  case 1
  then show ?case using assms by simp
next
  case (2 x)
  then show ?case by simp
next
  case (3 x y ys)
  then show ?case using str_includes_sep [OF assms, of x "join (y # ys) [c]"] by simp
qed

lemma str_includes_after:
  assumes "c \<notin> set p" and "str_includes (p @ s) (n1 @ c # n2)"
  shows "str_includes s (c # n2)"
proof -
  from assms(2) obtain us vs where "p @ s = (us @ n1) @ c # (n2 @ vs)"
    unfolding str_includes_iff by auto
  then consider w where "p = (us @ n1) @ w" "w @ s = c # (n2 @ vs)"
    | w where "p @ w = us @ n1" "s = w @ c # (n2 @ vs)"
    unfolding append_eq_append_conv2 [of p s] by blast
  then show ?thesis
  proof cases
    case 1
    show ?thesis
    proof (cases w)
      case Nil
      with 1 have "s = [] @ (c # n2) @ vs" by simp
      then show ?thesis unfolding str_includes_iff by blast
    next
      case (Cons y ys)
      with 1 have "c \<in> set p" by auto
      with assms show ?thesis by simp
    qed
  next
    case 2
    then have "s = w @ (c # n2) @ vs" by simp
    then show ?thesis unfolding str_includes_iff by blast
  qed
qed

lemma join_mid:
  "join (xs @ d # ys) sep =
     (if xs = [] then [] else join xs sep @ sep) @ d @ (if ys = [] then [] else sep @ join ys sep)"
proof (induction xs sep rule: join.induct)
  case (1 sep)
  then show ?case by (cases ys) auto
next
  case (2 x sep)
  then show ?case by (cases ys) auto
next
  case (3 x y zs sep)
  then show ?case by simp
qed


section \<open>Properties of the system prompt\<close>

lemma languageDirective_auto:
  "languageDirective ''auto'' = ''Output language: keep the original language; do NOT translate.''"
  by (simp add: languageDirective_def shouldTranslate_def)

lemma languageDirective_translate:
  "shouldTranslate t \<Longrightarrow> languageDirective t =
     (''Output language: '' @ t @ ''. Translate ALL textual content into '' @ t)
     @ '', including brand and product names, headings, labels, tables and lists. Do NOT mix languages. Preserve numbers, currency symbols, and layout semantics.''"
  by (simp add: languageDirective_def)

lemma prompt_split:
  "hs \<noteq> [] \<Longrightarrow> ts \<noteq> [] \<Longrightarrow>
   join (hs @ d # ts) newline = (join hs newline @ newline) @ d @ (newline @ join ts newline)"
  by (simp add: join_mid)

lemma heads_tails_nonempty:
  "jsonPromptHead \<noteq> []" "jsonPromptTail \<noteq> []" "markdownPromptHead \<noteq> []" "markdownPromptTail \<noteq> []"
  by (simp_all add: jsonPromptHead_def jsonPromptTail_def markdownPromptHead_def markdownPromptTail_def)

lemma buildSystemPrompt_multi_split:
  "buildSystemPrompt_multi t f =
     (if f = ''json''
      then (join jsonPromptHead newline @ newline) @ languageDirective t @ (newline @ join jsonPromptTail newline)
      else (join markdownPromptHead newline @ newline) @ languageDirective t @ (newline @ join markdownPromptTail newline))"
  by (simp only: buildSystemPrompt_multi_def prompt_split heads_tails_nonempty not_False_eq_True)

lemma buildSystemPrompt_single_multi:
  "buildSystemPrompt_single t = buildSystemPrompt_multi t ''markdown''"
  by (simp add: buildSystemPrompt_single_def buildSystemPrompt_multi_def)

lemma prompt_includes_directive:
  "str_includes (buildSystemPrompt_multi t f) (languageDirective t)"
  by (simp only: buildSystemPrompt_multi_split str_includes_middle if_split [of "\<lambda>p. str_includes p _"] simp_thms)

lemma newline_sep: "newline = [CHR 0x0A]"
  by (simp add: newline_def)

lemma prompt_lines_includes:
  assumes "CHR 0x0A \<notin> set n" and "n \<noteq> []"
  shows "str_includes (buildSystemPrompt_multi t f) n \<longleftrightarrow>
     (if f = ''json''
      then (\<exists>l\<in>set jsonPromptHead. str_includes l n) \<or> str_includes (languageDirective t) n
           \<or> (\<exists>l\<in>set jsonPromptTail. str_includes l n)
      else (\<exists>l\<in>set markdownPromptHead. str_includes l n) \<or> str_includes (languageDirective t) n
           \<or> (\<exists>l\<in>set markdownPromptTail. str_includes l n))"
  by (auto simp add: buildSystemPrompt_multi_def newline_sep str_includes_join [OF assms])

lemma no_translate_in_fixed_lines:
  "\<forall>l\<in>set jsonPromptHead. \<not> str_includes l ''Translate ALL''"
  "\<forall>l\<in>set jsonPromptTail. \<not> str_includes l ''Translate ALL''"
  "\<forall>l\<in>set markdownPromptHead. \<not> str_includes l ''Translate ALL''"
  "\<forall>l\<in>set markdownPromptTail. \<not> str_includes l ''Translate ALL''"
  by (simp_all add: jsonPromptHead_def jsonPromptTail_def markdownPromptHead_def markdownPromptTail_def arrow_def)

lemma auto_prompt_no_translate:
  "\<not> str_includes (buildSystemPrompt_multi ''auto'' f) ''Translate ALL''"
proof -
  have "\<not> str_includes (languageDirective ''auto'') ''Translate ALL''"
    by (simp add: languageDirective_auto)
  then show ?thesis
    using no_translate_in_fixed_lines by (simp add: prompt_lines_includes)
qed

lemma semicolon_before:
  "CHR '';'' \<notin> set (join jsonPromptHead newline)"
  "CHR '';'' \<notin> set (join markdownPromptHead newline)"
  by (simp_all add: jsonPromptHead_def markdownPromptHead_def newline_def)

lemma no_keep_after:
  "\<not> str_includes (join ('', including brand and product names, headings, labels, tables and lists. Do NOT mix languages. Preserve numbers, currency symbols, and layout semantics.'' # jsonPromptTail) newline) ''; do NOT translate''"
  "\<not> str_includes (join ('', including brand and product names, headings, labels, tables and lists. Do NOT mix languages. Preserve numbers, currency symbols, and layout semantics.'' # markdownPromptTail) newline) ''; do NOT translate''"
  by (simp_all add: newline_sep str_includes_join jsonPromptTail_def markdownPromptTail_def arrow_def)

lemma translate_lines_no_keep:
  assumes t: "shouldTranslate t" "CHR '';'' \<notin> set t"
    and hs: "hs \<noteq> []" "CHR '';'' \<notin> set (join hs newline)"
    and ts: "ts \<noteq> []"
      "\<not> str_includes (join ('', including brand and product names, headings, labels, tables and lists. Do NOT mix languages. Preserve numbers, currency symbols, and layout semantics.'' # ts) newline) ''; do NOT translate''"
  shows "\<not> str_includes (join (hs @ languageDirective t # ts) newline) ''keep the original language; do NOT translate''"
proof
  let ?rest = "'', including brand and product names, headings, labels, tables and lists. Do NOT mix languages. Preserve numbers, currency symbols, and layout semantics.''"
  let ?p = "(join hs newline @ newline) @ ''Output language: '' @ t @ ''. Translate ALL textual content into '' @ t"
  assume a: "str_includes (join (hs @ languageDirective t # ts) newline) ''keep the original language; do NOT translate''"
  have "join (?rest # ts) newline = ?rest @ newline @ join ts newline"
    using ts(1) by (cases ts) simp_all
  then have "join (hs @ languageDirective t # ts) newline = ?p @ join (?rest # ts) newline"
    by (simp only: prompt_split [OF hs(1) ts(1)] languageDirective_translate [OF t(1)] append_assoc)
  moreover have "''keep the original language; do NOT translate'' = ''keep the original language'' @ CHR '';'' # '' do NOT translate''"
    by simp
  ultimately have b: "str_includes (?p @ join (?rest # ts) newline) (''keep the original language'' @ CHR '';'' # '' do NOT translate'')"
    using a by simp
  have "CHR '';'' \<notin> set ?p"
    using t(2) hs(2) by (simp add: newline_def)
  from str_includes_after [OF this b] ts(2) show False
    by simp
qed

lemma translate_prompt_no_keep:
  assumes "shouldTranslate t" and "CHR '';'' \<notin> set t"
  shows "\<not> str_includes (buildSystemPrompt_multi t f) ''keep the original language; do NOT translate''"
  using translate_lines_no_keep [OF assms heads_tails_nonempty(1) semicolon_before(1) heads_tails_nonempty(2) no_keep_after(1)]
    translate_lines_no_keep [OF assms heads_tails_nonempty(3) semicolon_before(2) heads_tails_nonempty(4) no_keep_after(2)]
  by (simp add: buildSystemPrompt_multi_def)

lemma translate_prompt_includes:
  assumes "shouldTranslate t"
  shows "str_includes (buildSystemPrompt_multi t f)
           (''Output language: '' @ t @ ''. Translate ALL textual content into '' @ t)"
proof -
  have "str_includes (languageDirective t)
          (''Output language: '' @ t @ ''. Translate ALL textual content into '' @ t)"
    unfolding languageDirective_translate [OF assms] str_includes_iff
    by (intro exI [of _ "[]"] exI) simp
  then show ?thesis
    by (simp only: buildSystemPrompt_multi_split str_includes_left str_includes_right
          if_split [of "\<lambda>p. str_includes p _"] simp_thms)
qed

text \<open>
  C5. \<^verbatim>\<open>buildSystemPrompt\<close> is a function of the target language and the output format
  alone: equal inputs give the same string. For the target language \<^verbatim>\<open>"auto"\<close> the prompt
  contains the directive to keep the original language and not to translate, and no
  directive to translate. For a target language that is neither empty nor \<^verbatim>\<open>"auto"\<close> the
  prompt contains the directive to translate all textual content into that language, and,
  when the language code holds no semicolon (as \<^verbatim>\<open>"fr"\<close>), it does not contain the text
  \<^verbatim>\<open>keep the original language; do NOT translate\<close>. This holds for the prompt of both
  generations of the handler.
\<close>

theorem buildSystemPrompt_language_directive:
  "(targetLang = targetLang' \<and> format = format' \<longrightarrow>
      buildSystemPrompt_multi targetLang format = buildSystemPrompt_multi targetLang' format'
      \<and> buildSystemPrompt_single targetLang = buildSystemPrompt_single targetLang')
   \<and> str_includes (buildSystemPrompt_multi ''auto'' format)
        ''Output language: keep the original language; do NOT translate.''
   \<and> \<not> str_includes (buildSystemPrompt_multi ''auto'' format) ''Translate ALL''
   \<and> str_includes (buildSystemPrompt_single ''auto'')
        ''Output language: keep the original language; do NOT translate.''
   \<and> \<not> str_includes (buildSystemPrompt_single ''auto'') ''Translate ALL''
   \<and> (shouldTranslate targetLang \<longrightarrow>
        str_includes (buildSystemPrompt_multi targetLang format)
          (''Output language: '' @ targetLang @ ''. Translate ALL textual content into '' @ targetLang)
        \<and> str_includes (buildSystemPrompt_single targetLang)
          (''Output language: '' @ targetLang @ ''. Translate ALL textual content into '' @ targetLang))
   \<and> (shouldTranslate targetLang \<and> CHR '';'' \<notin> set targetLang \<longrightarrow>
        \<not> str_includes (buildSystemPrompt_multi targetLang format)
            ''keep the original language; do NOT translate''
        \<and> \<not> str_includes (buildSystemPrompt_single targetLang)
            ''keep the original language; do NOT translate'')"
proof -
  have auto_dir: "str_includes (buildSystemPrompt_multi ''auto'' f)
      ''Output language: keep the original language; do NOT translate.''" for f
    using prompt_includes_directive [of "''auto''" f] by (simp only: languageDirective_auto)
  show ?thesis
    using auto_dir auto_prompt_no_translate translate_prompt_includes translate_prompt_no_keep
    by (simp add: buildSystemPrompt_single_multi)
qed

theorem buildSystemPrompt_language_directive_witness:
  "shouldTranslate ''fr'' \<and> CHR '';'' \<notin> set ''fr''
   \<and> str_includes (buildSystemPrompt_multi ''fr'' ''json'')
        ''Output language: fr. Translate ALL textual content into fr''
   \<and> str_includes (buildSystemPrompt_single ''fr'')
        ''Output language: fr. Translate ALL textual content into fr''
   \<and> \<not> str_includes (buildSystemPrompt_multi ''fr'' ''json'')
        ''keep the original language; do NOT translate''
   \<and> \<not> str_includes (buildSystemPrompt_single ''fr'')
        ''keep the original language; do NOT translate''
   \<and> str_includes (buildSystemPrompt_multi ''auto'' ''json'')
        ''Output language: keep the original language; do NOT translate.''
   \<and> \<not> str_includes (buildSystemPrompt_multi ''auto'' ''json'') ''Translate ALL''"
proof -
  have h: "shouldTranslate ''fr''" "CHR '';'' \<notin> set ''fr''"
    by (simp_all add: shouldTranslate_def)
  show ?thesis
    using h buildSystemPrompt_language_directive [of "''fr''" "''fr''" "''json''" "''json''"]
    by simp
qed

section \<open>The paths of the handler\<close>

lemma foldl_file_size: "foldl (\<lambda>s f. s + file_size f) a fs = a + sum_list (map file_size fs)"
  by (induction fs arbitrary: a) simp_all

lemma new_Response_markdown:
  "new_Response text 200 [(''content-type'', ''text/markdown; charset=utf-8'')] = markdown_response text"
  by (simp add: new_Response_def markdown_response_def)

lemma status_new_Response: "status (new_Response text st hs) = st"
  by (simp add: new_Response_def)

lemma status_failure: "status (failure err) = 500"
  by (simp add: failure_def status_new_Response)

lemma status_respond_multi: "status (respond_multi pf format text) = 200"
  by (simp add: respond_multi_def Response_json_def status_new_Response split: option.splits)

lemma POST_multi_not_multipart:
  "\<not> isMultipart req \<Longrightarrow>
   POST_multi pf req =
     \<lparr>response = new_Response ''Content-Type must be multipart/form-data'' 400 [],
      formData_called = False, generateText_calls = []\<rparr>"
  by (simp add: POST_multi_def isMultipart_def)

lemma POST_multi_throws:
  "isMultipart req \<Longrightarrow> formData req = Inl err \<Longrightarrow>
   POST_multi pf req = \<lparr>response = failure err, formData_called = True, generateText_calls = []\<rparr>"
  by (simp add: POST_multi_def isMultipart_def)

lemma POST_multi_no_files:
  "isMultipart req \<Longrightarrow> formData req = Inr form \<Longrightarrow> inputFiles form = [] \<Longrightarrow>
   POST_multi pf req =
     \<lparr>response = new_Response ''Missing image file(s) (JPEG/PNG only)'' 400 [],
      formData_called = True, generateText_calls = []\<rparr>"
  by (simp add: POST_multi_def isMultipart_def)

lemma POST_multi_bad_type:
  assumes "isMultipart req" "formData req = Inr form" "inputFiles form \<noteq> []"
    and "\<exists>f\<in>set (inputFiles form). \<not> startsWith (file_type f) ''image/''"
  shows "POST_multi pf req =
     \<lparr>response = new_Response
         ''Only JPEG and PNG images are accepted (PDF must be converted client-side)'' 415 [],
      formData_called = True, generateText_calls = []\<rparr>"
proof -
  from assms(4) obtain f where "find (\<lambda>f. \<not> startsWith (file_type f) ''image/'') (inputFiles form) = Some f"
    by (cases "find (\<lambda>f. \<not> startsWith (file_type f) ''image/'') (inputFiles form)")
       (auto simp: find_None_iff)
  with assms(1-3) show ?thesis
    by (simp add: POST_multi_def isMultipart_def)
qed

lemma POST_multi_too_large:
  assumes "isMultipart req" "formData req = Inr form"
    and "\<forall>f\<in>set (inputFiles form). startsWith (file_type f) ''image/''"
    and "totalSize (inputFiles form) > maxSize"
  shows "POST_multi pf req =
     \<lparr>response = new_Response
         (''Fichiers trop volumineux ('' @ sizeMB (totalSize (inputFiles form)) @ ''MB > 4MB).'') 413 [],
      formData_called = True, generateText_calls = []\<rparr>"
proof -
  have "find (\<lambda>f. \<not> startsWith (file_type f) ''image/'') (inputFiles form) = None"
    using assms(3) by (simp add: find_None_iff)
  moreover have "inputFiles form \<noteq> []"
    using assms(4) by (auto simp: totalSize_def maxSize_def)
  ultimately show ?thesis
    using assms(1,2,4) by (simp add: POST_multi_def isMultipart_def foldl_file_size totalSize_def)
qed

lemma POST_multi_accepted:
  assumes "isMultipart req" "formData req = Inr form" "inputFiles form \<noteq> []"
    and "\<forall>f\<in>set (inputFiles form). startsWith (file_type f) ''image/''"
    and "totalSize (inputFiles form) \<le> maxSize"
  shows "POST_multi pf req =
     (let format = String_or (form_get form ''format'') ''markdown'';
          args = generateText_args_multi pf (String_or (form_get form ''targetLang'') ''auto'') format
                   (inputFiles form)
      in \<lparr>response = (case generateText pf args of Inl err \<Rightarrow> failure err
                       | Inr text \<Rightarrow> respond_multi pf format text),
          formData_called = True, generateText_calls = [args]\<rparr>)"
proof -
  have "find (\<lambda>f. \<not> startsWith (file_type f) ''image/'') (inputFiles form) = None"
    using assms(4) by (simp add: find_None_iff)
  then show ?thesis
    using assms(1,2,3,5)
    by (simp add: POST_multi_def isMultipart_def foldl_file_size totalSize_def Let_def split: sum.splits)
qed

text \<open>The provider is called exactly on the accepted requests.\<close>

lemma POST_multi_calls:
  "generateText_calls (POST_multi pf req) \<noteq> [] \<longleftrightarrow>
     isMultipart req \<and> (\<exists>form. formData req = Inr form \<and> inputFiles form \<noteq> []
       \<and> (\<forall>f\<in>set (inputFiles form). startsWith (file_type f) ''image/'')
       \<and> totalSize (inputFiles form) \<le> maxSize)"
proof (cases "isMultipart req")
  case False
  then show ?thesis by (simp add: POST_multi_not_multipart)
next
  case True
  show ?thesis
  proof (cases "formData req")
    case (Inl err)
    with True show ?thesis by (simp add: POST_multi_throws)
  next
    case (Inr form)
    show ?thesis
    proof (cases "inputFiles form = []")
      case True
      with \<open>isMultipart req\<close> Inr show ?thesis by (simp add: POST_multi_no_files)
    next
      case nonempty: False
      show ?thesis
      proof (cases "\<forall>f\<in>set (inputFiles form). startsWith (file_type f) ''image/''")
        case False
        with True Inr nonempty show ?thesis by (simp add: POST_multi_bad_type)
      next
        case images: True
        show ?thesis
        proof (cases "totalSize (inputFiles form) \<le> maxSize")
          case True
          with \<open>isMultipart req\<close> Inr nonempty images show ?thesis
            by (simp add: POST_multi_accepted Let_def)
        next
          case False
          with True Inr images show ?thesis by (simp add: POST_multi_too_large)
        qed
      qed
    qed
  qed
qed

lemma POST_multi_cases [case_names not_multipart throws no_files bad_type too_large accepted]:
  obtains "\<not> isMultipart req"
  | err where "isMultipart req" "formData req = Inl err"
  | form where "isMultipart req" "formData req = Inr form" "inputFiles form = []"
  | form where "isMultipart req" "formData req = Inr form" "inputFiles form \<noteq> []"
      "\<exists>f\<in>set (inputFiles form). \<not> startsWith (file_type f) ''image/''"
  | form where "isMultipart req" "formData req = Inr form" "inputFiles form \<noteq> []"
      "\<forall>f\<in>set (inputFiles form). startsWith (file_type f) ''image/''"
      "totalSize (inputFiles form) > maxSize"
  | form where "isMultipart req" "formData req = Inr form" "inputFiles form \<noteq> []"
      "\<forall>f\<in>set (inputFiles form). startsWith (file_type f) ''image/''"
      "totalSize (inputFiles form) \<le> maxSize"
proof (cases "formData req")
  case (Inl err)
  then show ?thesis using that(1,2) by blast
next
  case (Inr form)
  then show ?thesis
    using that(1) that(3) [of form] that(4) [of form] that(5) [of form] that(6) [of form]
    by (meson not_le)
qed

lemma POST_single_not_multipart:
  "\<not> isMultipart req \<Longrightarrow>
   POST_single pf req =
     \<lparr>response = new_Response ''Content-Type must be multipart/form-data'' 400 [],
      formData_called = False, generateText_calls = []\<rparr>"
  by (simp add: POST_single_def isMultipart_def)

lemma POST_single_throws:
  "isMultipart req \<Longrightarrow> formData req = Inl err \<Longrightarrow>
   POST_single pf req = \<lparr>response = failure err, formData_called = True, generateText_calls = []\<rparr>"
  by (simp add: POST_single_def isMultipart_def)

lemma POST_single_no_file:
  "isMultipart req \<Longrightarrow> formData req = Inr form \<Longrightarrow> \<forall>f. form_get form ''file'' \<noteq> Some (FileEntry f) \<Longrightarrow>
   POST_single pf req =
     \<lparr>response = new_Response ''Missing image file (JPEG/PNG only)'' 400 [],
      formData_called = True, generateText_calls = []\<rparr>"
  by (simp add: POST_single_def isMultipart_def split: option.splits entry.splits)

lemma POST_single_bad_type:
  "isMultipart req \<Longrightarrow> formData req = Inr form \<Longrightarrow> form_get form ''file'' = Some (FileEntry f) \<Longrightarrow>
   file_type f \<noteq> ''image/jpeg'' \<Longrightarrow> file_type f \<noteq> ''image/png'' \<Longrightarrow>
   POST_single pf req =
     \<lparr>response = new_Response ''Only JPEG and PNG images are accepted'' 415 [],
      formData_called = True, generateText_calls = []\<rparr>"
  by (simp add: POST_single_def isMultipart_def)

lemma jpeg_png_are_images:
  "startsWith ''image/jpeg'' ''image/''" "startsWith ''image/png'' ''image/''"
  by simp_all

lemma POST_single_too_large:
  "isMultipart req \<Longrightarrow> formData req = Inr form \<Longrightarrow> form_get form ''file'' = Some (FileEntry f) \<Longrightarrow>
   file_type f = ''image/jpeg'' \<or> file_type f = ''image/png'' \<Longrightarrow> file_size f > maxSize \<Longrightarrow>
   POST_single pf req =
     \<lparr>response = new_Response (''Fichier trop volumineux ('' @ sizeMB (file_size f) @ ''MB > 4MB).'') 413 [],
      formData_called = True, generateText_calls = []\<rparr>"
  using jpeg_png_are_images by (auto simp add: POST_single_def isMultipart_def)

lemma POST_single_accepted:
  "isMultipart req \<Longrightarrow> formData req = Inr form \<Longrightarrow> form_get form ''file'' = Some (FileEntry f) \<Longrightarrow>
   file_type f = ''image/jpeg'' \<or> file_type f = ''image/png'' \<Longrightarrow> file_size f \<le> maxSize \<Longrightarrow>
   POST_single pf req =
     (let args = generateText_args_single pf (String_or (form_get form ''targetLang'') ''auto'') f
      in \<lparr>response = (case generateText pf args of Inl err \<Rightarrow> failure err
                       | Inr text \<Rightarrow> markdown_response text),
          formData_called = True, generateText_calls = [args]\<rparr>)"
  using jpeg_png_are_images
  by (auto simp add: POST_single_def isMultipart_def Let_def new_Response_markdown split: sum.splits)

lemma POST_single_cases [case_names not_multipart throws no_file bad_type too_large accepted]:
  obtains "\<not> isMultipart req"
  | err where "isMultipart req" "formData req = Inl err"
  | form where "isMultipart req" "formData req = Inr form" "\<forall>f. form_get form ''file'' \<noteq> Some (FileEntry f)"
  | form f where "isMultipart req" "formData req = Inr form" "form_get form ''file'' = Some (FileEntry f)"
      "file_type f \<noteq> ''image/jpeg''" "file_type f \<noteq> ''image/png''"
  | form f where "isMultipart req" "formData req = Inr form" "form_get form ''file'' = Some (FileEntry f)"
      "file_type f = ''image/jpeg'' \<or> file_type f = ''image/png''" "file_size f > maxSize"
  | form f where "isMultipart req" "formData req = Inr form" "form_get form ''file'' = Some (FileEntry f)"
      "file_type f = ''image/jpeg'' \<or> file_type f = ''image/png''" "file_size f \<le> maxSize"
proof (cases "formData req")
  case (Inl err)
  then show ?thesis using that(1,2) by blast
next
  case (Inr form)
  show ?thesis
  proof (cases "\<exists>f. form_get form ''file'' = Some (FileEntry f)")
    case True
    then obtain f where "form_get form ''file'' = Some (FileEntry f)" by blast
    with Inr show ?thesis
      using that(1) that(4) [of form f] that(5) [of form f] that(6) [of form f]
      by (meson not_le)
  next
    case False
    with Inr show ?thesis using that(1,3) by blast
  qed
qed

lemma isMultipart_update [simp]: "isMultipart (req\<lparr>formData := fd\<rparr>) = isMultipart req"
  by (simp add: isMultipart_def)

lemma formData_called_multi: "formData_called (POST_multi pf req) = isMultipart req"
  by (cases req rule: POST_multi_cases)
     (simp_all add: POST_multi_not_multipart POST_multi_throws POST_multi_no_files POST_multi_bad_type
        POST_multi_too_large POST_multi_accepted Let_def)

lemma formData_called_single: "formData_called (POST_single pf req) = isMultipart req"
  by (cases req rule: POST_single_cases)
     (simp_all add: POST_single_not_multipart POST_single_throws POST_single_no_file POST_single_bad_type
        POST_single_too_large POST_single_accepted Let_def)

text \<open>The example inputs.\<close>

lemma example_multipart:
  "isMultipart (example_request ''multipart/form-data; boundary=x'' form)"
  by (simp add: isMultipart_def example_request_def or_string_def)

lemma example_formData: "formData (example_request ct form) = Inr form"
  by (simp add: example_request_def)

lemma example_generateText: "generateText (example_platform reply) args = Inr reply"
  by (simp add: example_platform_def)

lemma file_size_example: "file_size (example_file ty n) = n" "file_type (example_file ty n) = ty"
  by (simp_all add: file_size_def example_file_def)

lemma inputFiles_single_example:
  "inputFiles ((''file'', FileEntry f) # (''targetLang'', e1) # (''format'', e2) # []) = [f]"
  by (simp add: inputFiles_def form_get_def form_getAll_def)

lemma form_get_Cons: "form_get ((k, v) # form) k' = (if k' = k then Some v else form_get form k')"
  by (simp add: form_get_def)

lemma inputFiles_other_field:
  "k \<noteq> ''file'' \<Longrightarrow> k \<noteq> ''files[]'' \<Longrightarrow> inputFiles ((k, v) # form) = inputFiles form"
  by (simp add: inputFiles_def form_get_def form_getAll_def)

lemma format_only_json_args:
  "(f = ''json'') = (f' = ''json'') \<Longrightarrow>
   generateText_args_multi pf t f files = generateText_args_multi pf t f' files"
  by (simp add: generateText_args_multi_def buildSystemPrompt_multi_def)

lemma format_only_json_respond:
  "(f = ''json'') = (f' = ''json'') \<Longrightarrow> respond_multi pf f text = respond_multi pf f' text"
  by (simp add: respond_multi_def)

lemma POST_multi_status_called:
  "generateText_calls (POST_multi pf req) \<noteq> [] \<Longrightarrow> status (response (POST_multi pf req)) \<in> {200, 500}"
  by (cases req rule: POST_multi_cases)
     (auto simp add: POST_multi_not_multipart POST_multi_throws POST_multi_no_files POST_multi_bad_type
        POST_multi_too_large POST_multi_accepted Let_def status_failure status_respond_multi
        split: sum.splits)

lemma POST_multi_rejected_cong:
  assumes "isMultipart req' = isMultipart req" "formData req = Inr form" "formData req' = Inr form'"
    and "inputFiles form' = inputFiles form" and "generateText_calls (POST_multi pf req) = []"
  shows "POST_multi pf req' = POST_multi pf req"
  using assms
  by (cases req rule: POST_multi_cases)
     (auto simp add: POST_multi_not_multipart POST_multi_throws POST_multi_no_files POST_multi_bad_type
        POST_multi_too_large POST_multi_accepted Let_def)

lemma POST_multi_cong:
  assumes "isMultipart req' = isMultipart req" "formData req = Inr form" "formData req' = Inr form'"
    and "inputFiles form' = inputFiles form"
    and "String_or (form_get form' ''targetLang'') ''auto'' = String_or (form_get form ''targetLang'') ''auto''"
    and "(String_or (form_get form' ''format'') ''markdown'' = ''json'')
         = (String_or (form_get form ''format'') ''markdown'' = ''json'')"
  shows "POST_multi pf req' = POST_multi pf req"
proof (cases "generateText_calls (POST_multi pf req) = []")
  case True
  with assms(1-4) show ?thesis by (rule POST_multi_rejected_cong)
next
  case False
  then have acc: "isMultipart req" "inputFiles form \<noteq> []"
    "\<forall>f\<in>set (inputFiles form). startsWith (file_type f) ''image/''"
    "totalSize (inputFiles form) \<le> maxSize"
    using assms(2) by (auto simp add: POST_multi_calls)
  have a: "generateText_args_multi pf t (String_or (form_get form' ''format'') ''markdown'') fs
    = generateText_args_multi pf t (String_or (form_get form ''format'') ''markdown'') fs" for t fs
    using assms(6) by (rule format_only_json_args)
  have r: "respond_multi pf (String_or (form_get form' ''format'') ''markdown'') reply
    = respond_multi pf (String_or (form_get form ''format'') ''markdown'') reply" for reply
    using assms(6) by (rule format_only_json_respond)
  show ?thesis
    using acc assms(1,4,5)
    by (simp add: POST_multi_accepted [OF _ assms(2)] POST_multi_accepted [OF _ assms(3)] a r Let_def split: sum.splits)
qed

lemma POST_single_cong:
  assumes "isMultipart req' = isMultipart req" "formData req = Inr form" "formData req' = Inr form'"
    and "form_get form' ''file'' = form_get form ''file''"
    and "String_or (form_get form' ''targetLang'') ''auto'' = String_or (form_get form ''targetLang'') ''auto''"
  shows "POST_single pf req' = POST_single pf req"
  using assms by (simp add: POST_single_def isMultipart_def)

lemma example_request_update:
  "(example_request ct form0)\<lparr>formData := Inr form\<rparr> = example_request ct form"
  by (simp add: example_request_def)

lemma example_accepted_multi:
  assumes "inputFiles form = [example_file ''image/png'' 3]"
  shows "POST_multi (example_platform reply) (example_request ''multipart/form-data; boundary=x'' form) =
     \<lparr>response = respond_multi (example_platform reply) (String_or (form_get form ''format'') ''markdown'') reply,
      formData_called = True,
      generateText_calls =
        [generateText_args_multi (example_platform reply) (String_or (form_get form ''targetLang'') ''auto'')
           (String_or (form_get form ''format'') ''markdown'') [example_file ''image/png'' 3]]\<rparr>"
  by (simp add: POST_multi_accepted [OF example_multipart example_formData] assms
        file_size_example totalSize_def maxSize_def Let_def example_generateText)

lemma Math_round_MB: "Math_round (of_nat n / 1024 / 1024) = int ((2 * n + 1048576) div 2097152)"
proof -
  have "(of_nat n / 1024 / 1024 + 1 / 2 :: rat) = of_nat (2 * n + 1048576) / of_nat 2097152"
    by simp
  then show ?thesis
    unfolding Math_round_def by (simp only: floor_divide_of_nat_eq)
qed

lemma sizeMB_eq: "sizeMB n = String_nat ((2 * n + 1048576) div 2097152)"
  by (simp only: sizeMB_def Math_round_MB nat_int)

lemma maxSize_eq: "maxSize = 4 * 1024 * 1024"
  by (simp add: maxSize_def)

lemma POST_single_status_called:
  "generateText_calls (POST_single pf req) \<noteq> [] \<Longrightarrow> status (response (POST_single pf req)) \<in> {200, 500}"
  by (cases req rule: POST_single_cases)
     (auto simp add: POST_single_not_multipart POST_single_throws POST_single_no_file POST_single_bad_type
        POST_single_too_large POST_single_accepted Let_def status_failure markdown_response_def
        split: sum.splits)

lemma map_of_first:
  "map_of form k = (case [e. (k', e) \<leftarrow> form, k' = k] of [] \<Rightarrow> None | e # rest \<Rightarrow> Some e)"
proof (induction form)
  case Nil
  then show ?case by simp
next
  case (Cons p form)
  obtain k' e where p: "p = (k', e)" by (cases p)
  show ?case
    by (cases "k' = k") (simp_all add: p Cons.IH)
qed

lemma inputFiles_spec: "inputFiles form = spec_image_sequence form"
proof -
  have "(case (case es of [] \<Rightarrow> None | e # rest \<Rightarrow> Some e) of Some (FileEntry f) \<Rightarrow> [f] | _ \<Rightarrow> [])
      = (case es of FileEntry f # rest \<Rightarrow> [f] | _ \<Rightarrow> [])" for es :: "entry list"
    by (simp split: list.splits entry.splits)
  then have a: "(case form_get form ''file'' of Some (FileEntry f) \<Rightarrow> [f] | _ \<Rightarrow> [])
      = (case [e. (k, e) \<leftarrow> form, k = ''file''] of FileEntry f # rest \<Rightarrow> [f] | _ \<Rightarrow> [])"
    unfolding form_get_def map_of_first [of form "''file''"] .
  have b: "concat (map (\<lambda>e. case e of FileEntry f \<Rightarrow> [f] | Str s \<Rightarrow> []) (form_getAll form ''files[]''))
      = [f. (k, FileEntry f) \<leftarrow> form, k = ''files[]'']"
    unfolding form_getAll_def by (induction form) (auto split: entry.splits)
  show ?thesis
    unfolding inputFiles_def spec_image_sequence_def Let_def a b ..
qed

lemma startsWith_nonempty: "startsWith t ''image/'' \<Longrightarrow> t \<noteq> []"
  by (cases t) simp_all

lemma dataUrl_image:
  "startsWith (file_type f) ''image/'' \<Longrightarrow>
   dataUrl pf f = ''data:'' @ file_type f @ '';base64,'' @ toBase64 pf (file_bytes f)"
  by (simp add: dataUrl_def startsWith_nonempty)

lemma map_dataUrl_images:
  "\<forall>f\<in>set fs. startsWith (file_type f) ''image/'' \<Longrightarrow>
   map (\<lambda>f. ImagePart (dataUrl pf f)) fs
     = map (\<lambda>f. ImagePart (''data:'' @ file_type f @ '';base64,'' @ toBase64 pf (file_bytes f))) fs"
  by (simp add: dataUrl_image)

lemma example_file_fields:
  "file_type (example_file ty n) = ty" "file_bytes (example_file ty n) = replicate n 0"
  by (simp_all add: example_file_def)

lemma example_toBase64: "toBase64 (example_platform reply) bytes = ''QUJD''"
  by (simp add: example_platform_def)

section \<open>The claims about the handler\<close>

text \<open>
  C8, as amended. When the value of the \<^verbatim>\<open>content-type\<close> header does not contain the text
  \<^verbatim>\<open>multipart/form-data\<close> (an absent header counts as the empty string), both generations of the handler answer 400 with the
  message \<^verbatim>\<open>Content-Type must be multipart/form-data\<close>, never call \<^verbatim>\<open>req.formData()\<close>, never
  call the provider, and return the same outcome whatever the body holds. This check is the
  first one: \<^verbatim>\<open>req.formData()\<close> is called exactly when it passes.
\<close>

theorem non_multipart_rejected_first:
  "formData_called (POST_multi pf req) = isMultipart req
   \<and> formData_called (POST_single pf req) = isMultipart req
   \<and> (\<not> isMultipart req \<longrightarrow>
        response (POST_multi pf req) = new_Response ''Content-Type must be multipart/form-data'' 400 []
        \<and> status (response (POST_multi pf req)) = 400
        \<and> generateText_calls (POST_multi pf req) = []
        \<and> POST_multi pf (req\<lparr>formData := fd\<rparr>) = POST_multi pf req
        \<and> response (POST_single pf req) = new_Response ''Content-Type must be multipart/form-data'' 400 []
        \<and> status (response (POST_single pf req)) = 400
        \<and> generateText_calls (POST_single pf req) = []
        \<and> POST_single pf (req\<lparr>formData := fd\<rparr>) = POST_single pf req)"
  by (simp add: formData_called_multi formData_called_single POST_multi_not_multipart
        POST_single_not_multipart status_new_Response)

theorem non_multipart_rejected_first_witness:
  "\<not> isMultipart (example_request ''application/json'' [(''file'', FileEntry (example_file ''image/png'' 3))])
   \<and> status (response (POST_multi (example_platform ''# Title'')
        (example_request ''application/json'' [(''file'', FileEntry (example_file ''image/png'' 3))]))) = 400
   \<and> \<not> formData_called (POST_multi (example_platform ''# Title'')
        (example_request ''application/json'' [(''file'', FileEntry (example_file ''image/png'' 3))]))
   \<and> status (response (POST_single (example_platform ''# Title'')
        (example_request ''application/json'' [(''file'', FileEntry (example_file ''image/png'' 3))]))) = 400
   \<and> \<not> formData_called (POST_single (example_platform ''# Title'')
        (example_request ''application/json'' [(''file'', FileEntry (example_file ''image/png'' 3))]))"
proof -
  have h: "\<not> isMultipart (example_request ''application/json'' [(''file'', FileEntry (example_file ''image/png'' 3))])"
    by (simp add: isMultipart_def example_request_def or_string_def)
  show ?thesis
    using h non_multipart_rejected_first [of "example_platform ''# Title''"
        "example_request ''application/json'' [(''file'', FileEntry (example_file ''image/png'' 3))]" "Inr []"]
    by (simp add: status_new_Response)
qed

text \<open>
  C8, as stated, fails: a header that declares the media type \<^verbatim>\<open>text/plain\<close> and holds the
  text \<^verbatim>\<open>multipart/form-data\<close> in a parameter passes the first check of both handlers, which
  then call \<^verbatim>\<open>req.formData()\<close>; when that throws, the answer is 500, not 400.
\<close>

theorem header_parameter_passes_first_check:
  "\<not> declaresMultipart (content_type example_plain_request)
   \<and> formData_called (POST_multi (example_platform ''# Title'') example_plain_request)
   \<and> status (response (POST_multi (example_platform ''# Title'') example_plain_request)) = 500
   \<and> formData_called (POST_single (example_platform ''# Title'') example_plain_request)
   \<and> status (response (POST_single (example_platform ''# Title'') example_plain_request)) = 500"
proof -
  have "length (mediaType example_header) = 10"
    by (simp add: mediaType_def example_header_def trim_def isSpace_def toLowerCase_def)
  then have "mediaType example_header \<noteq> ''multipart/form-data''"
    by auto
  then have d: "\<not> declaresMultipart (content_type example_plain_request)"
    by (simp add: declaresMultipart_def example_plain_request_def)
  have m: "isMultipart example_plain_request"
    by (simp add: isMultipart_def example_plain_request_def example_header_def or_string_def)
  have t: "formData example_plain_request
      = Inl (JsError ''Content-Type was not one of multipart/form-data or application/x-www-form-urlencoded.'')"
    by (simp add: example_plain_request_def)
  from d show ?thesis
    by (simp add: POST_multi_throws [OF m t] POST_single_throws [OF m t] status_failure)
qed

text \<open>
  C7. When the output format is \<^verbatim>\<open>markdown\<close> and the provider call of the request returns
  the text \<open>T\<close>, the multi-page handler answers with status 200, the body \<open>T\<close> unchanged and
  the header \<^verbatim>\<open>content-type: text/markdown; charset=utf-8\<close>. The single-image handler, whose
  output is always Markdown, does so for every provider call that returns a text.
\<close>

theorem markdown_passthrough:
  "(formData req = Inr form \<and> String_or (form_get form ''format'') ''markdown'' = ''markdown''
      \<and> generateText_calls (POST_multi pf req) = [args] \<and> generateText pf args = Inr T \<longrightarrow>
      response (POST_multi pf req) =
        \<lparr>status = 200, body = Text T, headers = [(''content-type'', ''text/markdown; charset=utf-8'')]\<rparr>)
   \<and> (generateText_calls (POST_single pf req) = [args'] \<and> generateText pf args' = Inr T' \<longrightarrow>
      response (POST_single pf req) =
        \<lparr>status = 200, body = Text T', headers = [(''content-type'', ''text/markdown; charset=utf-8'')]\<rparr>)"
proof (intro conjI impI)
  assume a: "formData req = Inr form \<and> String_or (form_get form ''format'') ''markdown'' = ''markdown''
      \<and> generateText_calls (POST_multi pf req) = [args] \<and> generateText pf args = Inr T"
  then show "response (POST_multi pf req) =
        \<lparr>status = 200, body = Text T, headers = [(''content-type'', ''text/markdown; charset=utf-8'')]\<rparr>"
    by (cases req rule: POST_multi_cases)
       (auto simp add: POST_multi_not_multipart POST_multi_throws POST_multi_no_files POST_multi_bad_type
          POST_multi_too_large POST_multi_accepted Let_def respond_multi_def new_Response_def)
next
  assume a: "generateText_calls (POST_single pf req) = [args'] \<and> generateText pf args' = Inr T'"
  then show "response (POST_single pf req) =
        \<lparr>status = 200, body = Text T', headers = [(''content-type'', ''text/markdown; charset=utf-8'')]\<rparr>"
    by (cases req rule: POST_single_cases)
       (auto simp add: POST_single_not_multipart POST_single_throws POST_single_no_file POST_single_bad_type
          POST_single_too_large POST_single_accepted Let_def markdown_response_def)
qed

theorem markdown_passthrough_witness:
  "response (POST_multi (example_platform ''# Title'')
      (example_request ''multipart/form-data; boundary=x''
        [(''file'', FileEntry (example_file ''image/png'' 3)), (''targetLang'', Str ''auto''), (''format'', Str ''markdown'')]))
     = \<lparr>status = 200, body = Text ''# Title'', headers = [(''content-type'', ''text/markdown; charset=utf-8'')]\<rparr>
   \<and> response (POST_single (example_platform ''# Title'')
      (example_request ''multipart/form-data; boundary=x''
        [(''file'', FileEntry (example_file ''image/png'' 3)), (''targetLang'', Str ''auto''), (''format'', Str ''markdown'')]))
     = \<lparr>status = 200, body = Text ''# Title'', headers = [(''content-type'', ''text/markdown; charset=utf-8'')]\<rparr>"
proof -
  let ?form = "[(''file'', FileEntry (example_file ''image/png'' 3)), (''targetLang'', Str ''auto''), (''format'', Str ''markdown'')]"
  let ?req = "example_request ''multipart/form-data; boundary=x'' ?form"
  let ?pf = "example_platform ''# Title''"
  have m: "generateText_calls (POST_multi ?pf ?req) = [generateText_args_multi ?pf ''auto'' ''markdown'' [example_file ''image/png'' 3]]"
    by (simp add: POST_multi_accepted [OF example_multipart example_formData] inputFiles_single_example
          file_size_example totalSize_def maxSize_def form_get_def Let_def)
  have s: "generateText_calls (POST_single ?pf ?req) = [generateText_args_single ?pf ''auto'' (example_file ''image/png'' 3)]"
    by (simp add: POST_single_accepted [OF example_multipart example_formData, of _ "example_file ''image/png'' 3"]
          file_size_example maxSize_def form_get_def Let_def)
  have f: "String_or (form_get ?form ''format'') ''markdown'' = ''markdown''"
    by (simp add: form_get_def)
  show ?thesis
    using markdown_passthrough [of ?req ?form ?pf _ "''# Title''" _ "''# Title''"] m s f
    by (simp add: example_formData example_generateText)
qed

lemma JSON_stringify_of_json: "JSON_stringify (of_json j) = j"
  by (induction j) (auto simp add: map_idI prod.map_comp intro!: map_idI)

lemma body_Response_json: "body (Response_json data) = JsonBody (JSON_stringify data)"
  "status (Response_json data) = 200"
  "headers (Response_json data) = [(''content-type'', ''application/json'')]"
  by (simp_all add: Response_json_def)

text \<open>
  C4, as amended. For a request of the multi-page handler whose \<^verbatim>\<open>format\<close> field is \<^verbatim>\<open>json\<close>
  and whose provider call returns the text \<open>T\<close>: when \<^verbatim>\<open>JSON.parse\<close> succeeds the body of the
  response is the serialisation of the parsed value, which is that value itself when all
  its numbers are finite and has \<^verbatim>\<open>null\<close> in the place of each number that is not; when
  \<^verbatim>\<open>JSON.parse\<close> fails the body is the object \<^verbatim>\<open>{ content: T }\<close>. In both cases the status is
  200, the content type is \<^verbatim>\<open>application/json\<close> and the body is a JSON value.
\<close>

theorem json_response:
  "formData req = Inr form \<and> form_get form ''format'' = Some (Str ''json'')
     \<and> generateText_calls (POST_multi pf req) = [args] \<and> generateText pf args = Inr T \<longrightarrow>
   status (response (POST_multi pf req)) = 200
   \<and> headers (response (POST_multi pf req)) = [(''content-type'', ''application/json'')]
   \<and> body (response (POST_multi pf req)) =
        JsonBody (case JSON_parse pf T of Some parsed \<Rightarrow> JSON_stringify parsed
                  | None \<Rightarrow> JObject [(''content'', JString T)])
   \<and> (JSON_parse pf T = Some (of_json j) \<longrightarrow> body (response (POST_multi pf req)) = JsonBody j)
   \<and> (JSON_parse pf T = None \<longrightarrow>
        body (response (POST_multi pf req)) = JsonBody (JObject [(''content'', JString T)]))
   \<and> (\<exists>v. body (response (POST_multi pf req)) = JsonBody v)"
proof
  assume a: "formData req = Inr form \<and> form_get form ''format'' = Some (Str ''json'')
     \<and> generateText_calls (POST_multi pf req) = [args] \<and> generateText pf args = Inr T"
  then have f: "String_or (form_get form ''format'') ''markdown'' = ''json''"
    by simp
  from a have r: "response (POST_multi pf req) =
     (case JSON_parse pf T of Some parsed \<Rightarrow> Response_json parsed
      | None \<Rightarrow> Response_json (JSObject [(''content'', JSString T)]))"
    by (cases req rule: POST_multi_cases)
       (auto simp add: POST_multi_not_multipart POST_multi_throws POST_multi_no_files POST_multi_bad_type
          POST_multi_too_large POST_multi_accepted Let_def respond_multi_def f split: option.splits)
  show "status (response (POST_multi pf req)) = 200
   \<and> headers (response (POST_multi pf req)) = [(''content-type'', ''application/json'')]
   \<and> body (response (POST_multi pf req)) =
        JsonBody (case JSON_parse pf T of Some parsed \<Rightarrow> JSON_stringify parsed
                  | None \<Rightarrow> JObject [(''content'', JString T)])
   \<and> (JSON_parse pf T = Some (of_json j) \<longrightarrow> body (response (POST_multi pf req)) = JsonBody j)
   \<and> (JSON_parse pf T = None \<longrightarrow>
        body (response (POST_multi pf req)) = JsonBody (JObject [(''content'', JString T)]))
   \<and> (\<exists>v. body (response (POST_multi pf req)) = JsonBody v)"
    by (cases "JSON_parse pf T") (simp_all add: r body_Response_json JSON_stringify_of_json)
qed

theorem json_response_witness:
  "body (response (POST_multi (example_platform ''null'')
      (example_request ''multipart/form-data; boundary=x''
        [(''file'', FileEntry (example_file ''image/png'' 3)), (''targetLang'', Str ''auto''), (''format'', Str ''json'')])))
     = JsonBody JNull
   \<and> body (response (POST_multi (example_platform ''# Title'')
      (example_request ''multipart/form-data; boundary=x''
        [(''file'', FileEntry (example_file ''image/png'' 3)), (''targetLang'', Str ''auto''), (''format'', Str ''json'')])))
     = JsonBody (JObject [(''content'', JString ''# Title'')])"
proof -
  let ?form = "[(''file'', FileEntry (example_file ''image/png'' 3)), (''targetLang'', Str ''auto''), (''format'', Str ''json'')]"
  let ?req = "example_request ''multipart/form-data; boundary=x'' ?form"
  let ?args = "\<lambda>reply. generateText_args_multi (example_platform reply) ''auto'' ''json'' [example_file ''image/png'' 3]"
  have m: "generateText_calls (POST_multi (example_platform reply) ?req) = [?args reply]" for reply
    by (simp add: POST_multi_accepted [OF example_multipart example_formData] inputFiles_single_example
          file_size_example totalSize_def maxSize_def form_get_def Let_def)
  have f: "form_get ?form ''format'' = Some (Str ''json'')"
    by (simp add: form_get_def)
  have p: "JSON_parse (example_platform reply) ''null'' = Some (of_json JNull)"
    "JSON_parse (example_platform reply) ''# Title'' = None" for reply
    by (simp_all add: example_platform_def)
  note A = json_response [where req = ?req and form = ?form and pf = "example_platform ''null''"
      and args = "?args ''null''" and T = "''null''" and j = JNull]
  note B = json_response [where req = ?req and form = ?form and pf = "example_platform ''# Title''"
      and args = "?args ''# Title''" and T = "''# Title''" and j = JNull]
  from A m f p have 1: "body (response (POST_multi (example_platform ''null'') ?req)) = JsonBody JNull"
    by (simp add: example_formData example_generateText)
  from B m f p have 2: "body (response (POST_multi (example_platform ''# Title'') ?req))
      = JsonBody (JObject [(''content'', JString ''# Title'')])"
    by (simp add: example_formData example_generateText)
  from 1 2 show ?thesis
    by (intro conjI)
qed

text \<open>
  C4, as stated, fails: the text \<^verbatim>\<open>1e999\<close> is valid JSON, \<^verbatim>\<open>JSON.parse\<close> gives \<^verbatim>\<open>Infinity\<close> for
  it, and the body of the response is \<^verbatim>\<open>null\<close>, which is not the parsed value.
\<close>

theorem json_overflow_number_answered_null:
  "JSON_parse (example_platform ''1e999'') ''1e999'' = Some (JSNumber PosInfinity)
   \<and> body (response (POST_multi (example_platform ''1e999'')
      (example_request ''multipart/form-data; boundary=x''
        [(''file'', FileEntry (example_file ''image/png'' 3)), (''targetLang'', Str ''auto''), (''format'', Str ''json'')])))
     = JsonBody JNull
   \<and> of_json JNull \<noteq> JSNumber PosInfinity"
proof -
  let ?form = "[(''file'', FileEntry (example_file ''image/png'' 3)), (''targetLang'', Str ''auto''), (''format'', Str ''json'')]"
  let ?req = "example_request ''multipart/form-data; boundary=x'' ?form"
  have p: "JSON_parse (example_platform ''1e999'') ''1e999'' = Some (JSNumber PosInfinity)"
    by (simp add: example_platform_def)
  have "response (POST_multi (example_platform ''1e999'') ?req)
      = respond_multi (example_platform ''1e999'') ''json'' ''1e999''"
    by (simp add: POST_multi_accepted [OF example_multipart example_formData] inputFiles_single_example
          file_size_example totalSize_def maxSize_def form_get_def Let_def example_generateText)
  then have "body (response (POST_multi (example_platform ''1e999'') ?req)) = JsonBody JNull"
    by (simp add: respond_multi_def p body_Response_json)
  with p show ?thesis
    by simp
qed

text \<open>
  C9. The \<^verbatim>\<open>format\<close> field is never validated. A request whose \<^verbatim>\<open>format\<close> field is anything
  but the string \<^verbatim>\<open>json\<close> (absent, empty, another string such as \<^verbatim>\<open>xml\<close>, or a file) is
  handled by the multi-page handler exactly as the same request with \<^verbatim>\<open>format=markdown\<close>, and
  when its provider call returns a text the response is the Markdown response. A rejection
  (status 400, 413 or 415) does not depend on the value of \<^verbatim>\<open>format\<close>: with any other value
  the outcome is the same. The single-image handler ignores the field altogether.
\<close>

theorem format_never_validated:
  "(form_get form ''format'' \<noteq> Some (Str ''json'') \<longrightarrow>
      POST_multi pf (req\<lparr>formData := Inr form\<rparr>)
        = POST_multi pf (req\<lparr>formData := Inr ((''format'', Str ''markdown'') # form)\<rparr>)
      \<and> (generateText_calls (POST_multi pf (req\<lparr>formData := Inr form\<rparr>)) = [args]
           \<and> generateText pf args = Inr T \<longrightarrow>
          response (POST_multi pf (req\<lparr>formData := Inr form\<rparr>)) = markdown_response T))
   \<and> (status (response (POST_multi pf (req\<lparr>formData := Inr ((''format'', v) # form)\<rparr>))) \<in> {400, 413, 415} \<longrightarrow>
      POST_multi pf (req\<lparr>formData := Inr ((''format'', v') # form)\<rparr>)
        = POST_multi pf (req\<lparr>formData := Inr ((''format'', v) # form)\<rparr>))
   \<and> POST_single pf (req\<lparr>formData := Inr ((''format'', v) # form)\<rparr>)
        = POST_single pf (req\<lparr>formData := Inr form\<rparr>)"
proof (intro conjI impI)
  assume nj: "form_get form ''format'' \<noteq> Some (Str ''json'')"
  then have f: "String_or (form_get form ''format'') ''markdown'' \<noteq> ''json''"
    by (cases "(form_get form ''format'', ''markdown'')" rule: String_or.cases) auto
  then show eq: "POST_multi pf (req\<lparr>formData := Inr form\<rparr>)
        = POST_multi pf (req\<lparr>formData := Inr ((''format'', Str ''markdown'') # form)\<rparr>)"
    by (intro POST_multi_cong [of _ _ "(''format'', Str ''markdown'') # form" form])
       (simp_all add: form_get_Cons inputFiles_other_field)
  assume "generateText_calls (POST_multi pf (req\<lparr>formData := Inr form\<rparr>)) = [args]
           \<and> generateText pf args = Inr T"
  then show "response (POST_multi pf (req\<lparr>formData := Inr form\<rparr>)) = markdown_response T"
    using f
    by (cases "req\<lparr>formData := Inr form\<rparr>" rule: POST_multi_cases)
       (auto simp add: POST_multi_not_multipart POST_multi_throws POST_multi_no_files POST_multi_bad_type
          POST_multi_too_large POST_multi_accepted Let_def respond_multi_def new_Response_markdown)
next
  assume "status (response (POST_multi pf (req\<lparr>formData := Inr ((''format'', v) # form)\<rparr>))) \<in> {400, 413, 415}"
  then have "status (response (POST_multi pf (req\<lparr>formData := Inr ((''format'', v) # form)\<rparr>))) \<notin> {200, 500}"
    by auto
  then have "generateText_calls (POST_multi pf (req\<lparr>formData := Inr ((''format'', v) # form)\<rparr>)) = []"
    using POST_multi_status_called [of pf "req\<lparr>formData := Inr ((''format'', v) # form)\<rparr>"] by blast
  then show "POST_multi pf (req\<lparr>formData := Inr ((''format'', v') # form)\<rparr>)
        = POST_multi pf (req\<lparr>formData := Inr ((''format'', v) # form)\<rparr>)"
    by (intro POST_multi_rejected_cong [of _ _ "(''format'', v) # form" "(''format'', v') # form"])
       (simp_all add: inputFiles_other_field)
next
  show "POST_single pf (req\<lparr>formData := Inr ((''format'', v) # form)\<rparr>)
        = POST_single pf (req\<lparr>formData := Inr form\<rparr>)"
    by (intro POST_single_cong [of _ _ form "(''format'', v) # form"]) (simp_all add: form_get_Cons)
qed

theorem format_never_validated_witness:
  "form_get [(''file'', FileEntry (example_file ''image/png'' 3)), (''format'', Str ''xml'')] ''format''
     \<noteq> Some (Str ''json'')
   \<and> response (POST_multi (example_platform ''# Title'')
        (example_request ''multipart/form-data; boundary=x''
          [(''file'', FileEntry (example_file ''image/png'' 3)), (''format'', Str ''xml'')]))
      = markdown_response ''# Title''
   \<and> POST_multi (example_platform ''# Title'')
        (example_request ''multipart/form-data; boundary=x''
          [(''file'', FileEntry (example_file ''image/png'' 3)), (''format'', Str ''xml'')])
      = POST_multi (example_platform ''# Title'')
        (example_request ''multipart/form-data; boundary=x''
          [(''format'', Str ''markdown''), (''file'', FileEntry (example_file ''image/png'' 3)), (''format'', Str ''xml'')])
   \<and> status (response (POST_multi (example_platform ''# Title'')
        (example_request ''multipart/form-data; boundary=x''
          [(''format'', Str ''json''), (''file'', FileEntry (example_file ''text/plain'' 3))]))) = 415
   \<and> POST_multi (example_platform ''# Title'')
        (example_request ''multipart/form-data; boundary=x''
          [(''format'', Str ''xml''), (''file'', FileEntry (example_file ''text/plain'' 3))])
      = POST_multi (example_platform ''# Title'')
        (example_request ''multipart/form-data; boundary=x''
          [(''format'', Str ''json''), (''file'', FileEntry (example_file ''text/plain'' 3))])"
proof -
  let ?pf = "example_platform ''# Title''"
  let ?mp = "''multipart/form-data; boundary=x''"
  let ?form = "[(''file'', FileEntry (example_file ''image/png'' 3)), (''format'', Str ''xml'')]"
  let ?bad = "[(''file'', FileEntry (example_file ''text/plain'' 3))]"
  have n: "form_get ?form ''format'' \<noteq> Some (Str ''json'')"
    by (simp add: form_get_def)
  have i: "inputFiles ?form = [example_file ''image/png'' 3]"
    by (simp add: inputFiles_def form_get_def form_getAll_def)
  have c: "generateText_calls (POST_multi ?pf (example_request ?mp ?form))
      = [generateText_args_multi ?pf ''auto'' ''xml'' [example_file ''image/png'' 3]]"
    by (simp add: example_accepted_multi [OF i] form_get_def)
  have b: "inputFiles ((''format'', Str ''json'') # ?bad) = [example_file ''text/plain'' 3]"
    by (simp add: inputFiles_def form_get_def form_getAll_def)
  have s: "status (response (POST_multi ?pf (example_request ?mp ((''format'', Str ''json'') # ?bad)))) = 415"
    by (simp add: POST_multi_bad_type [OF example_multipart example_formData] b file_size_example
          status_new_Response)
  note A = format_never_validated [where form = ?form and pf = ?pf and req = "example_request ?mp []"
        and args = "generateText_args_multi ?pf ''auto'' ''xml'' [example_file ''image/png'' 3]"
        and T = "''# Title''" and v = "Str ''json''" and v' = "Str ''xml''", unfolded example_request_update]
  note B = format_never_validated [where form = ?bad and pf = ?pf and req = "example_request ?mp []"
        and args = "generateText_args_multi ?pf ''auto'' ''xml'' [example_file ''image/png'' 3]"
        and T = "''# Title''" and v = "Str ''json''" and v' = "Str ''xml''", unfolded example_request_update]
  from A n have e1: "POST_multi ?pf (example_request ?mp ?form)
      = POST_multi ?pf (example_request ?mp ((''format'', Str ''markdown'') # ?form))"
    by blast
  from A n c example_generateText [of "''# Title''"]
  have r: "response (POST_multi ?pf (example_request ?mp ?form)) = markdown_response ''# Title''"
    by blast
  from s have "status (response (POST_multi ?pf (example_request ?mp ((''format'', Str ''json'') # ?bad))))
      \<in> {400, 413, 415}"
    by simp
  with B have e2: "POST_multi ?pf (example_request ?mp ((''format'', Str ''xml'') # ?bad))
      = POST_multi ?pf (example_request ?mp ((''format'', Str ''json'') # ?bad))"
    by blast
  from n r e1 s e2 show ?thesis
    by (intro conjI)
qed

text \<open>
  C10. A \<^verbatim>\<open>targetLang\<close> field holding the empty string is treated as \<^verbatim>\<open>auto\<close>: the handler
  substitutes \<^verbatim>\<open>"auto"\<close> on receipt, and for the empty string as for \<^verbatim>\<open>"auto"\<close> the prompt
  construction takes the branch without translation. For a fixed format the system prompts
  and the user text are the same, and so are the provider call and the whole outcome of
  both handlers.
\<close>

theorem empty_targetLang_is_auto:
  "String_or (Some (Str '''')) ''auto'' = ''auto''
   \<and> \<not> shouldTranslate '''' \<and> \<not> shouldTranslate ''auto''
   \<and> languageDirective '''' = ''Output language: keep the original language; do NOT translate.''
   \<and> languageDirective ''auto'' = ''Output language: keep the original language; do NOT translate.''
   \<and> buildSystemPrompt_multi '''' format = buildSystemPrompt_multi ''auto'' format
   \<and> buildSystemPrompt_single '''' = buildSystemPrompt_single ''auto''
   \<and> translateHint '''' = translateHint ''auto''
   \<and> generateText_args_multi pf '''' format files = generateText_args_multi pf ''auto'' format files
   \<and> generateText_args_single pf '''' f = generateText_args_single pf ''auto'' f
   \<and> POST_multi pf (req\<lparr>formData := Inr ((''targetLang'', Str '''') # form)\<rparr>)
        = POST_multi pf (req\<lparr>formData := Inr ((''targetLang'', Str ''auto'') # form)\<rparr>)
   \<and> POST_single pf (req\<lparr>formData := Inr ((''targetLang'', Str '''') # form)\<rparr>)
        = POST_single pf (req\<lparr>formData := Inr ((''targetLang'', Str ''auto'') # form)\<rparr>)"
proof -
  have s: "\<not> shouldTranslate ''''" "\<not> shouldTranslate ''auto''"
    by (simp_all add: shouldTranslate_def)
  have d: "languageDirective '''' = ''Output language: keep the original language; do NOT translate.''"
    "languageDirective ''auto'' = ''Output language: keep the original language; do NOT translate.''"
    by (simp_all only: languageDirective_def s if_False)
  have h: "translateHint '''' = translateHint ''auto''"
    by (simp only: translateHint_def s if_False)
  have b: "buildSystemPrompt_multi '''' f = buildSystemPrompt_multi ''auto'' f"
    "buildSystemPrompt_single '''' = buildSystemPrompt_single ''auto''" for f
    by (simp_all only: buildSystemPrompt_multi_def buildSystemPrompt_single_def d)
  have m: "POST_multi pf (req\<lparr>formData := Inr ((''targetLang'', Str '''') # form)\<rparr>)
        = POST_multi pf (req\<lparr>formData := Inr ((''targetLang'', Str ''auto'') # form)\<rparr>)"
    by (intro POST_multi_cong [of _ _ "(''targetLang'', Str ''auto'') # form" "(''targetLang'', Str '''') # form"])
       (simp_all add: form_get_Cons inputFiles_other_field)
  have g: "POST_single pf (req\<lparr>formData := Inr ((''targetLang'', Str '''') # form)\<rparr>)
        = POST_single pf (req\<lparr>formData := Inr ((''targetLang'', Str ''auto'') # form)\<rparr>)"
    by (intro POST_single_cong [of _ _ "(''targetLang'', Str ''auto'') # form" "(''targetLang'', Str '''') # form"])
       (simp_all add: form_get_Cons)
  show ?thesis
    using s d h b m g
    by (simp add: generateText_args_multi_def generateText_args_single_def)
qed

theorem empty_targetLang_is_auto_witness:
  "POST_multi (example_platform ''# Title'')
      (example_request ''multipart/form-data; boundary=x''
        [(''targetLang'', Str ''''), (''file'', FileEntry (example_file ''image/png'' 3))])
     = POST_multi (example_platform ''# Title'')
      (example_request ''multipart/form-data; boundary=x''
        [(''targetLang'', Str ''auto''), (''file'', FileEntry (example_file ''image/png'' 3))])
   \<and> POST_single (example_platform ''# Title'')
      (example_request ''multipart/form-data; boundary=x''
        [(''targetLang'', Str ''''), (''file'', FileEntry (example_file ''image/png'' 3))])
     = POST_single (example_platform ''# Title'')
      (example_request ''multipart/form-data; boundary=x''
        [(''targetLang'', Str ''auto''), (''file'', FileEntry (example_file ''image/png'' 3))])
   \<and> generateText_calls (POST_multi (example_platform ''# Title'')
      (example_request ''multipart/form-data; boundary=x''
        [(''targetLang'', Str ''''), (''file'', FileEntry (example_file ''image/png'' 3))]))
     = [generateText_args_multi (example_platform ''# Title'') ''auto'' ''markdown''
          [example_file ''image/png'' 3]]"
proof -
  let ?pf = "example_platform ''# Title''"
  let ?mp = "''multipart/form-data; boundary=x''"
  have i: "inputFiles [(''targetLang'', Str ''''), (''file'', FileEntry (example_file ''image/png'' 3))]
      = [example_file ''image/png'' 3]"
    by (simp add: inputFiles_def form_get_def form_getAll_def)
  have c: "generateText_calls (POST_multi ?pf (example_request ?mp
        [(''targetLang'', Str ''''), (''file'', FileEntry (example_file ''image/png'' 3))]))
      = [generateText_args_multi ?pf ''auto'' ''markdown'' [example_file ''image/png'' 3]]"
    by (simp add: example_accepted_multi [OF i] form_get_def)
  show ?thesis
    using c empty_targetLang_is_auto [where format = "''markdown''" and pf = ?pf and files = "[]"
        and f = "example_file ''image/png'' 3" and req = "example_request ?mp []"
        and form = "[(''file'', FileEntry (example_file ''image/png'' 3))]"]
    by (simp add: example_request_update)
qed

text \<open>
  C1, as amended. An upload whose files sum to more than 4 MiB never reaches the provider
  and is rejected. The rejection is the status 413, with a message that states the summed
  size in MB rounded to the nearest integer, when the request passes the earlier checks:
  the content type is multipart and every file has a MIME type that begins with
  \<^verbatim>\<open>image/\<close>. Otherwise an earlier check answers first, with 400 or 415. The single-image
  handler measures the singular \<^verbatim>\<open>file\<close> only, and its earlier check asks for
  \<^verbatim>\<open>image/jpeg\<close> or \<^verbatim>\<open>image/png\<close>.
\<close>

theorem oversized_upload_rejected:
  "(isMultipart req \<and> formData req = Inr form
      \<and> (\<forall>f\<in>set (inputFiles form). startsWith (file_type f) ''image/'')
      \<and> totalSize (inputFiles form) > 4 * 1024 * 1024 \<longrightarrow>
      response (POST_multi pf req) =
        new_Response (''Fichiers trop volumineux (''
          @ String_nat ((2 * totalSize (inputFiles form) + 1048576) div 2097152) @ ''MB > 4MB).'') 413 []
      \<and> status (response (POST_multi pf req)) = 413
      \<and> generateText_calls (POST_multi pf req) = [])
   \<and> (formData req = Inr form \<and> totalSize (inputFiles form) > 4 * 1024 * 1024 \<longrightarrow>
      generateText_calls (POST_multi pf req) = []
      \<and> status (response (POST_multi pf req)) \<in> {400, 413, 415})
   \<and> (isMultipart req \<and> formData req = Inr form \<and> form_get form ''file'' = Some (FileEntry f)
      \<and> (file_type f = ''image/jpeg'' \<or> file_type f = ''image/png'')
      \<and> file_size f > 4 * 1024 * 1024 \<longrightarrow>
      response (POST_single pf req) =
        new_Response (''Fichier trop volumineux (''
          @ String_nat ((2 * file_size f + 1048576) div 2097152) @ ''MB > 4MB).'') 413 []
      \<and> status (response (POST_single pf req)) = 413
      \<and> generateText_calls (POST_single pf req) = [])
   \<and> (formData req = Inr form \<and> form_get form ''file'' = Some (FileEntry f)
      \<and> file_size f > 4 * 1024 * 1024 \<longrightarrow>
      generateText_calls (POST_single pf req) = []
      \<and> status (response (POST_single pf req)) \<in> {400, 413, 415})"
proof (intro conjI impI)
  assume a: "isMultipart req \<and> formData req = Inr form
      \<and> (\<forall>f\<in>set (inputFiles form). startsWith (file_type f) ''image/'')
      \<and> totalSize (inputFiles form) > 4 * 1024 * 1024"
  then have p: "POST_multi pf req =
     \<lparr>response = new_Response
         (''Fichiers trop volumineux ('' @ sizeMB (totalSize (inputFiles form)) @ ''MB > 4MB).'') 413 [],
      formData_called = True, generateText_calls = []\<rparr>"
    by (intro POST_multi_too_large) (simp_all add: maxSize_eq)
  show "response (POST_multi pf req) =
        new_Response (''Fichiers trop volumineux (''
          @ String_nat ((2 * totalSize (inputFiles form) + 1048576) div 2097152) @ ''MB > 4MB).'') 413 []"
    by (simp add: p sizeMB_eq)
  show "status (response (POST_multi pf req)) = 413"
    by (simp add: p status_new_Response)
  show "generateText_calls (POST_multi pf req) = []"
    by (simp add: p)
next
  assume a: "formData req = Inr form \<and> totalSize (inputFiles form) > 4 * 1024 * 1024"
  then have ne: "inputFiles form \<noteq> []"
    by (auto simp: totalSize_def)
  from a show "generateText_calls (POST_multi pf req) = []"
    using POST_multi_calls [of pf req] by (auto simp add: maxSize_eq)
  from a ne show "status (response (POST_multi pf req)) \<in> {400, 413, 415}"
    by (cases req rule: POST_multi_cases)
       (auto simp add: POST_multi_not_multipart POST_multi_throws POST_multi_no_files POST_multi_bad_type
          POST_multi_too_large POST_multi_accepted status_new_Response maxSize_eq)
next
  assume a: "isMultipart req \<and> formData req = Inr form \<and> form_get form ''file'' = Some (FileEntry f)
      \<and> (file_type f = ''image/jpeg'' \<or> file_type f = ''image/png'')
      \<and> file_size f > 4 * 1024 * 1024"
  then have p: "POST_single pf req =
     \<lparr>response = new_Response (''Fichier trop volumineux ('' @ sizeMB (file_size f) @ ''MB > 4MB).'') 413 [],
      formData_called = True, generateText_calls = []\<rparr>"
    by (intro POST_single_too_large [of req form f]) (simp_all add: maxSize_eq)
  show "response (POST_single pf req) =
        new_Response (''Fichier trop volumineux (''
          @ String_nat ((2 * file_size f + 1048576) div 2097152) @ ''MB > 4MB).'') 413 []"
    by (simp add: p sizeMB_eq)
  show "status (response (POST_single pf req)) = 413"
    by (simp add: p status_new_Response)
  show "generateText_calls (POST_single pf req) = []"
    by (simp add: p)
next
  assume a: "formData req = Inr form \<and> form_get form ''file'' = Some (FileEntry f)
      \<and> file_size f > 4 * 1024 * 1024"
  then have s: "status (response (POST_single pf req)) \<in> {400, 413, 415}"
    by (cases req rule: POST_single_cases)
       (auto simp add: POST_single_not_multipart POST_single_throws POST_single_no_file POST_single_bad_type
          POST_single_too_large POST_single_accepted status_new_Response maxSize_eq)
  then show "status (response (POST_single pf req)) \<in> {400, 413, 415}" .
  from s have "status (response (POST_single pf req)) \<notin> {200, 500}"
    by auto
  then show "generateText_calls (POST_single pf req) = []"
    using POST_single_status_called [of pf req] by blast
qed

theorem oversized_upload_rejected_witness:
  "response (POST_multi (example_platform ''# Title'')
      (example_request ''multipart/form-data; boundary=x''
        [(''files[]'', FileEntry (example_file ''image/jpeg'' 3000000)),
         (''files[]'', FileEntry (example_file ''image/jpeg'' 2242880))]))
     = new_Response ''Fichiers trop volumineux (5MB > 4MB).'' 413 []
   \<and> generateText_calls (POST_multi (example_platform ''# Title'')
      (example_request ''multipart/form-data; boundary=x''
        [(''files[]'', FileEntry (example_file ''image/jpeg'' 3000000)),
         (''files[]'', FileEntry (example_file ''image/jpeg'' 2242880))])) = []
   \<and> response (POST_single (example_platform ''# Title'')
      (example_request ''multipart/form-data; boundary=x''
        [(''file'', FileEntry (example_file ''image/jpeg'' 5242880))]))
     = new_Response ''Fichier trop volumineux (5MB > 4MB).'' 413 []
   \<and> generateText_calls (POST_single (example_platform ''# Title'')
      (example_request ''multipart/form-data; boundary=x''
        [(''file'', FileEntry (example_file ''image/jpeg'' 5242880))])) = []"
proof -
  let ?pf = "example_platform ''# Title''"
  let ?mp = "''multipart/form-data; boundary=x''"
  let ?two = "[(''files[]'', FileEntry (example_file ''image/jpeg'' 3000000)),
         (''files[]'', FileEntry (example_file ''image/jpeg'' 2242880))]"
  let ?one = "[(''file'', FileEntry (example_file ''image/jpeg'' 5242880))]"
  have i: "inputFiles ?two = [example_file ''image/jpeg'' 3000000, example_file ''image/jpeg'' 2242880]"
    by (simp add: inputFiles_def form_get_def form_getAll_def)
  have t: "totalSize [example_file ''image/jpeg'' 3000000, example_file ''image/jpeg'' 2242880] = 5242880"
    by (simp add: totalSize_def file_size_example)
  have d: "String_nat 5 = ''5''"
    by (simp add: String_nat.simps digit_def)
  have g: "form_get ?one ''file'' = Some (FileEntry (example_file ''image/jpeg'' 5242880))"
    by (simp add: form_get_def)
  note A = oversized_upload_rejected [where req = "example_request ?mp ?two" and form = ?two and pf = ?pf
      and f = "example_file ''image/jpeg'' 5242880"]
  note B = oversized_upload_rejected [where req = "example_request ?mp ?one" and form = ?one and pf = ?pf
      and f = "example_file ''image/jpeg'' 5242880"]
  from A have "response (POST_multi ?pf (example_request ?mp ?two))
      = new_Response ''Fichiers trop volumineux (5MB > 4MB).'' 413 []
      \<and> generateText_calls (POST_multi ?pf (example_request ?mp ?two)) = []"
    by (simp add: example_multipart example_formData i t file_size_example d)
  moreover from B have "response (POST_single ?pf (example_request ?mp ?one))
      = new_Response ''Fichier trop volumineux (5MB > 4MB).'' 413 []
      \<and> generateText_calls (POST_single ?pf (example_request ?mp ?one)) = []"
    by (simp add: example_multipart example_formData g file_size_example d)
  ultimately show ?thesis
    by simp
qed

text \<open>
  C1, as stated, fails: an upload of one \<^verbatim>\<open>text/plain\<close> file of 5 MiB is answered with 415,
  not 413, because the MIME check comes before the size check.
\<close>

theorem oversized_text_upload_gets_415:
  "totalSize (inputFiles [(''file'', FileEntry (example_file ''text/plain'' 5242880))]) > 4 * 1024 * 1024
   \<and> status (response (POST_multi (example_platform ''# Title'')
        (example_request ''multipart/form-data; boundary=x''
          [(''file'', FileEntry (example_file ''text/plain'' 5242880))]))) = 415
   \<and> status (response (POST_multi (example_platform ''# Title'')
        (example_request ''multipart/form-data; boundary=x''
          [(''file'', FileEntry (example_file ''text/plain'' 5242880))]))) \<noteq> 413"
proof -
  have i: "inputFiles [(''file'', FileEntry (example_file ''text/plain'' 5242880))]
      = [example_file ''text/plain'' 5242880]"
    by (simp add: inputFiles_def form_get_def form_getAll_def)
  have "status (response (POST_multi (example_platform ''# Title'')
        (example_request ''multipart/form-data; boundary=x''
          [(''file'', FileEntry (example_file ''text/plain'' 5242880))]))) = 415"
    by (simp add: POST_multi_bad_type [OF example_multipart example_formData] i file_size_example
          status_new_Response)
  then show ?thesis
    by (simp add: i totalSize_def file_size_example)
qed

text \<open>
  C2, as amended. For a multipart request with at least one file, the multi-page handler
  answers 415 exactly when some file has a declared MIME type that does not begin with
  \<^verbatim>\<open>image/\<close>; a file whose type begins with \<^verbatim>\<open>image/\<close> is never the cause of a 415 there.
  The single-image handler answers 415 exactly when the type of its file is neither
  \<^verbatim>\<open>image/jpeg\<close> nor \<^verbatim>\<open>image/png\<close>, so it also rejects the other \<^verbatim>\<open>image/\<close> types.
\<close>

theorem mime_check_415:
  "(isMultipart req \<and> formData req = Inr form \<and> inputFiles form \<noteq> [] \<longrightarrow>
      (status (response (POST_multi pf req)) = 415
        \<longleftrightarrow> (\<exists>f\<in>set (inputFiles form). \<not> startsWith (file_type f) ''image/'')))
   \<and> (isMultipart req \<and> formData req = Inr form \<and> form_get form ''file'' = Some (FileEntry f) \<longrightarrow>
      (status (response (POST_single pf req)) = 415
        \<longleftrightarrow> file_type f \<noteq> ''image/jpeg'' \<and> file_type f \<noteq> ''image/png''))"
proof (intro conjI impI)
  assume a: "isMultipart req \<and> formData req = Inr form \<and> inputFiles form \<noteq> []"
  then show "status (response (POST_multi pf req)) = 415
        \<longleftrightarrow> (\<exists>f\<in>set (inputFiles form). \<not> startsWith (file_type f) ''image/'')"
    by (cases req rule: POST_multi_cases)
       (auto simp add: POST_multi_not_multipart POST_multi_throws POST_multi_no_files POST_multi_bad_type
          POST_multi_too_large POST_multi_accepted status_new_Response status_failure
          status_respond_multi Let_def split: sum.splits)
next
  assume a: "isMultipart req \<and> formData req = Inr form \<and> form_get form ''file'' = Some (FileEntry f)"
  then show "status (response (POST_single pf req)) = 415
        \<longleftrightarrow> file_type f \<noteq> ''image/jpeg'' \<and> file_type f \<noteq> ''image/png''"
    by (cases req rule: POST_single_cases)
       (auto simp add: POST_single_not_multipart POST_single_throws POST_single_no_file POST_single_bad_type
          POST_single_too_large POST_single_accepted status_new_Response status_failure
          markdown_response_def Let_def split: sum.splits)
qed

theorem mime_check_415_witness:
  "status (response (POST_multi (example_platform ''# Title'')
      (example_request ''multipart/form-data; boundary=x''
        [(''files[]'', FileEntry (example_file ''image/png'' 3)),
         (''files[]'', FileEntry (example_file ''application/pdf'' 3))]))) = 415
   \<and> status (response (POST_multi (example_platform ''# Title'')
      (example_request ''multipart/form-data; boundary=x''
        [(''files[]'', FileEntry (example_file ''image/png'' 3)),
         (''files[]'', FileEntry (example_file ''image/gif'' 3))]))) \<noteq> 415
   \<and> status (response (POST_single (example_platform ''# Title'')
      (example_request ''multipart/form-data; boundary=x''
        [(''file'', FileEntry (example_file ''image/png'' 3))]))) \<noteq> 415
   \<and> status (response (POST_single (example_platform ''# Title'')
      (example_request ''multipart/form-data; boundary=x''
        [(''file'', FileEntry (example_file ''application/pdf'' 3))]))) = 415"
proof -
  let ?pf = "example_platform ''# Title''"
  let ?mp = "''multipart/form-data; boundary=x''"
  let ?pdf = "[(''files[]'', FileEntry (example_file ''image/png'' 3)),
         (''files[]'', FileEntry (example_file ''application/pdf'' 3))]"
  let ?gif = "[(''files[]'', FileEntry (example_file ''image/png'' 3)),
         (''files[]'', FileEntry (example_file ''image/gif'' 3))]"
  have i: "inputFiles ?pdf = [example_file ''image/png'' 3, example_file ''application/pdf'' 3]"
    "inputFiles ?gif = [example_file ''image/png'' 3, example_file ''image/gif'' 3]"
    by (simp_all add: inputFiles_def form_get_def form_getAll_def)
  from mime_check_415 [where req = "example_request ?mp ?pdf" and form = ?pdf and pf = ?pf]
  have 1: "status (response (POST_multi ?pf (example_request ?mp ?pdf))) = 415"
    by (simp add: example_multipart example_formData i file_size_example)
  from mime_check_415 [where req = "example_request ?mp ?gif" and form = ?gif and pf = ?pf]
  have 2: "status (response (POST_multi ?pf (example_request ?mp ?gif))) \<noteq> 415"
    by (simp add: example_multipart example_formData i file_size_example)
  from mime_check_415 [where req = "example_request ?mp [(''file'', FileEntry (example_file ''image/png'' 3))]"
      and form = "[(''file'', FileEntry (example_file ''image/png'' 3))]" and pf = ?pf
      and f = "example_file ''image/png'' 3"]
  have 3: "status (response (POST_single ?pf
      (example_request ?mp [(''file'', FileEntry (example_file ''image/png'' 3))]))) \<noteq> 415"
    by (simp add: example_multipart example_formData form_get_def file_size_example)
  from mime_check_415 [where req = "example_request ?mp [(''file'', FileEntry (example_file ''application/pdf'' 3))]"
      and form = "[(''file'', FileEntry (example_file ''application/pdf'' 3))]" and pf = ?pf
      and f = "example_file ''application/pdf'' 3"]
  have 4: "status (response (POST_single ?pf
      (example_request ?mp [(''file'', FileEntry (example_file ''application/pdf'' 3))]))) = 415"
    by (simp add: example_multipart example_formData form_get_def file_size_example)
  from 1 2 3 4 show ?thesis
    by (intro conjI)
qed

text \<open>
  C2, as stated, fails on the single-image handler: a file of type \<^verbatim>\<open>image/gif\<close>, which
  begins with \<^verbatim>\<open>image/\<close>, is answered with 415.
\<close>

theorem gif_rejected_by_single_handler:
  "startsWith (file_type (example_file ''image/gif'' 3)) ''image/''
   \<and> status (response (POST_single (example_platform ''# Title'')
        (example_request ''multipart/form-data; boundary=x''
          [(''file'', FileEntry (example_file ''image/gif'' 3))]))) = 415"
proof -
  have "form_get [(''file'', FileEntry (example_file ''image/gif'' 3))] ''file''
      = Some (FileEntry (example_file ''image/gif'' 3))"
    by (simp add: form_get_def)
  then have "status (response (POST_single (example_platform ''# Title'')
        (example_request ''multipart/form-data; boundary=x''
          [(''file'', FileEntry (example_file ''image/gif'' 3))]))) = 415"
    by (simp add: POST_single_bad_type [OF example_multipart example_formData] file_size_example
          status_new_Response)
  then show ?thesis
    by (simp add: file_size_example)
qed

text \<open>
  C3, as amended. The multi-page handler takes images from the singular \<^verbatim>\<open>file\<close> field and
  from the repeated \<^verbatim>\<open>files[]\<close> field and makes one ordered sequence of them: the singular
  file first, when present, then the \<^verbatim>\<open>files[]\<close> entries in submission order. Its outcome
  depends on the form only through this sequence, \<^verbatim>\<open>targetLang\<close> and \<^verbatim>\<open>format\<close>; a request with
  a non-empty sequence is never answered 400; and the provider call carries one image part
  for each file of the sequence, in order, as a base64 data URL. The single-image handler
  takes its image from the singular \<^verbatim>\<open>file\<close> field only: without it the answer is 400, and
  its provider call carries that one file.
\<close>

theorem image_sequence_normalized:
  "inputFiles form = spec_image_sequence form
   \<and> (isMultipart req' = isMultipart req \<and> formData req = Inr form \<and> formData req' = Inr form'
        \<and> spec_image_sequence form' = spec_image_sequence form
        \<and> form_get form' ''targetLang'' = form_get form ''targetLang''
        \<and> form_get form' ''format'' = form_get form ''format'' \<longrightarrow>
      POST_multi pf req' = POST_multi pf req)
   \<and> (isMultipart req \<and> formData req = Inr form \<and> spec_image_sequence form \<noteq> [] \<longrightarrow>
      status (response (POST_multi pf req)) \<noteq> 400)
   \<and> (formData req = Inr form \<and> generateText_calls (POST_multi pf req) = [args] \<longrightarrow>
      (\<exists>t. messages args =
         [(''user'', TextPart t #
             map (\<lambda>f. ImagePart (''data:'' @ file_type f @ '';base64,'' @ toBase64 pf (file_bytes f)))
               (spec_image_sequence form))]))
   \<and> (isMultipart req \<and> formData req = Inr form \<and> (\<forall>f. form_get form ''file'' \<noteq> Some (FileEntry f)) \<longrightarrow>
      status (response (POST_single pf req)) = 400 \<and> generateText_calls (POST_single pf req) = [])
   \<and> (formData req = Inr form \<and> generateText_calls (POST_single pf req) = [args'] \<longrightarrow>
      (\<exists>f t. form_get form ''file'' = Some (FileEntry f)
         \<and> messages args' =
           [(''user'', [TextPart t,
               ImagePart (''data:'' @ file_type f @ '';base64,'' @ toBase64 pf (file_bytes f))])]))"
proof (intro conjI impI)
  show "inputFiles form = spec_image_sequence form"
    by (rule inputFiles_spec)
next
  assume "isMultipart req' = isMultipart req \<and> formData req = Inr form \<and> formData req' = Inr form'
        \<and> spec_image_sequence form' = spec_image_sequence form
        \<and> form_get form' ''targetLang'' = form_get form ''targetLang''
        \<and> form_get form' ''format'' = form_get form ''format''"
  then show "POST_multi pf req' = POST_multi pf req"
    by (intro POST_multi_cong [of req' req form form']) (simp_all add: inputFiles_spec)
next
  assume a: "isMultipart req \<and> formData req = Inr form \<and> spec_image_sequence form \<noteq> []"
  then have "inputFiles form \<noteq> []"
    by (simp add: inputFiles_spec)
  with a show "status (response (POST_multi pf req)) \<noteq> 400"
    by (cases req rule: POST_multi_cases)
       (auto simp add: POST_multi_bad_type POST_multi_too_large POST_multi_accepted status_new_Response
          status_failure status_respond_multi Let_def split: sum.splits)
next
  assume a: "formData req = Inr form \<and> generateText_calls (POST_multi pf req) = [args]"
  then have "generateText_calls (POST_multi pf req) \<noteq> []"
    by simp
  then have "isMultipart req \<and> (\<exists>form. formData req = Inr form \<and> inputFiles form \<noteq> []
       \<and> (\<forall>f\<in>set (inputFiles form). startsWith (file_type f) ''image/'')
       \<and> totalSize (inputFiles form) \<le> maxSize)"
    by (simp only: POST_multi_calls)
  with a have acc: "isMultipart req" "inputFiles form \<noteq> []"
    "\<forall>f\<in>set (inputFiles form). startsWith (file_type f) ''image/''"
    "totalSize (inputFiles form) \<le> maxSize"
    by auto
  from a have "args = generateText_args_multi pf (String_or (form_get form ''targetLang'') ''auto'')
      (String_or (form_get form ''format'') ''markdown'') (inputFiles form)"
    using POST_multi_accepted [OF acc(1) _ acc(2,3,4), of pf] by (simp add: Let_def)
  then show "\<exists>t. messages args =
         [(''user'', TextPart t #
             map (\<lambda>f. ImagePart (''data:'' @ file_type f @ '';base64,'' @ toBase64 pf (file_bytes f)))
               (spec_image_sequence form))]"
    using map_dataUrl_images [OF acc(3), of pf]
    by (simp add: generateText_args_multi_def inputFiles_spec comp_def)
next
  assume a: "isMultipart req \<and> formData req = Inr form \<and> (\<forall>f. form_get form ''file'' \<noteq> Some (FileEntry f))"
  then have p: "POST_single pf req =
     \<lparr>response = new_Response ''Missing image file (JPEG/PNG only)'' 400 [],
      formData_called = True, generateText_calls = []\<rparr>"
    by (intro POST_single_no_file [of req form]) simp_all
  show "status (response (POST_single pf req)) = 400"
    by (simp add: p status_new_Response)
  show "generateText_calls (POST_single pf req) = []"
    by (simp add: p)
next
  assume a: "formData req = Inr form \<and> generateText_calls (POST_single pf req) = [args']"
  then show "\<exists>f t. form_get form ''file'' = Some (FileEntry f)
         \<and> messages args' =
           [(''user'', [TextPart t,
               ImagePart (''data:'' @ file_type f @ '';base64,'' @ toBase64 pf (file_bytes f))])]"
  proof (cases req rule: POST_single_cases)
    case (accepted form0 f)
    with a have "form0 = form" by simp
    with accepted have "POST_single pf req =
       (let args = generateText_args_single pf (String_or (form_get form ''targetLang'') ''auto'') f
        in \<lparr>response = (case generateText pf args of Inl err \<Rightarrow> failure err
                         | Inr text \<Rightarrow> markdown_response text),
            formData_called = True, generateText_calls = [args]\<rparr>)"
      by (intro POST_single_accepted) simp_all
    with a have "args' = generateText_args_single pf (String_or (form_get form ''targetLang'') ''auto'') f"
      by (simp add: Let_def)
    moreover have "startsWith (file_type f) ''image/''"
      using accepted(4) jpeg_png_are_images by auto
    ultimately show ?thesis
      using accepted(3) \<open>form0 = form\<close>
      by (simp add: generateText_args_single_def dataUrl_image)
  qed (simp_all add: POST_single_not_multipart POST_single_throws POST_single_no_file POST_single_bad_type
          POST_single_too_large)
qed

theorem image_sequence_normalized_witness:
  "spec_image_sequence
      [(''files[]'', FileEntry (example_file ''image/png'' 3)),
       (''file'', FileEntry (example_file ''image/webp'' 3)),
       (''files[]'', Str ''x''),
       (''files[]'', FileEntry (example_file ''image/jpeg'' 3))]
     = [example_file ''image/webp'' 3, example_file ''image/png'' 3, example_file ''image/jpeg'' 3]
   \<and> (\<exists>t. map messages (generateText_calls (POST_multi (example_platform ''# Title'')
        (example_request ''multipart/form-data; boundary=x''
          [(''files[]'', FileEntry (example_file ''image/png'' 3)),
           (''file'', FileEntry (example_file ''image/webp'' 3)),
           (''files[]'', Str ''x''),
           (''files[]'', FileEntry (example_file ''image/jpeg'' 3))])))
      = [[(''user'', [TextPart t,
            ImagePart ''data:image/webp;base64,QUJD'',
            ImagePart ''data:image/png;base64,QUJD'',
            ImagePart ''data:image/jpeg;base64,QUJD''])]])"
proof -
  let ?pf = "example_platform ''# Title''"
  let ?form = "[(''files[]'', FileEntry (example_file ''image/png'' 3)),
       (''file'', FileEntry (example_file ''image/webp'' 3)),
       (''files[]'', Str ''x''),
       (''files[]'', FileEntry (example_file ''image/jpeg'' 3))]"
  let ?req = "example_request ''multipart/form-data; boundary=x'' ?form"
  let ?seq = "[example_file ''image/webp'' 3, example_file ''image/png'' 3, example_file ''image/jpeg'' 3]"
  let ?args = "generateText_args_multi ?pf ''auto'' ''markdown'' ?seq"
  note T = image_sequence_normalized [where form = ?form and req = ?req and pf = ?pf and args = ?args
      and req' = ?req and form' = ?form and args' = ?args]
  have i: "inputFiles ?form = ?seq"
    by (simp add: inputFiles_def form_get_def form_getAll_def)
  with T [THEN conjunct1] have s: "spec_image_sequence ?form = ?seq"
    by simp
  have c: "generateText_calls (POST_multi ?pf ?req) = [?args]"
    by (simp add: POST_multi_accepted [OF example_multipart example_formData] i
          file_size_example totalSize_def maxSize_def form_get_def Let_def)
  with T [THEN conjunct2, THEN conjunct2, THEN conjunct2, THEN conjunct1]
  have "\<exists>t. messages ?args =
         [(''user'', TextPart t #
             map (\<lambda>f. ImagePart (''data:'' @ file_type f @ '';base64,'' @ toBase64 ?pf (file_bytes f)))
               (spec_image_sequence ?form))]"
    by (simp add: example_formData)
  then have "\<exists>t. map messages (generateText_calls (POST_multi ?pf ?req))
      = [[(''user'', [TextPart t,
            ImagePart ''data:image/webp;base64,QUJD'',
            ImagePart ''data:image/png;base64,QUJD'',
            ImagePart ''data:image/jpeg;base64,QUJD''])]]"
    by (simp add: c s example_file_fields example_toBase64)
  with s show ?thesis
    by (intro conjI)
qed

text \<open>
  C3, as stated, fails on the single-image handler: a request whose only image is in
  \<^verbatim>\<open>files[]\<close> is answered 400 and never reaches the provider.
\<close>

theorem files_field_ignored_by_single_handler:
  "spec_image_sequence [(''files[]'', FileEntry (example_file ''image/png'' 3))]
     = [example_file ''image/png'' 3]
   \<and> status (response (POST_single (example_platform ''# Title'')
        (example_request ''multipart/form-data; boundary=x''
          [(''files[]'', FileEntry (example_file ''image/png'' 3))]))) = 400
   \<and> generateText_calls (POST_single (example_platform ''# Title'')
        (example_request ''multipart/form-data; boundary=x''
          [(''files[]'', FileEntry (example_file ''image/png'' 3))])) = []"
proof -
  have "\<forall>f. form_get [(''files[]'', FileEntry (example_file ''image/png'' 3))] ''file'' \<noteq> Some (FileEntry f)"
    by (simp add: form_get_def)
  then have "POST_single (example_platform ''# Title'')
        (example_request ''multipart/form-data; boundary=x''
          [(''files[]'', FileEntry (example_file ''image/png'' 3))]) =
     \<lparr>response = new_Response ''Missing image file (JPEG/PNG only)'' 400 [],
      formData_called = True, generateText_calls = []\<rparr>"
    by (intro POST_single_no_file [OF example_multipart example_formData])
  then show ?thesis
    by (simp add: status_new_Response spec_image_sequence_def)
qed

section \<open>The claim about the client preprocessor\<close>

lemma floor_rat_numeral_div: "\<lfloor>numeral a / numeral b :: rat\<rfloor> = numeral a div numeral b"
  by (metis floor_divide_of_int_eq of_int_numeral)

lemma toUnsignedLong_of_nat: "toUnsignedLong (of_nat n) = n"
  by (simp add: toUnsignedLong_def)

lemma toUnsignedLong_div: "toUnsignedLong (of_nat a * of_nat b / of_nat c) = (a * b) div c"
proof -
  have "(of_nat a * of_nat b / of_nat c :: rat) = of_nat (a * b) / of_nat c"
    by simp
  then show ?thesis
    unfolding toUnsignedLong_def by (simp only: floor_divide_of_nat_eq nat_int)
qed

lemma scaled_le: "a \<le> c \<Longrightarrow> (a * m) div c \<le> (m::nat)"
proof (cases "c = 0")
  case True
  then show ?thesis by simp
next
  case False
  assume "a \<le> c"
  then have "a * m \<le> m * c" by (simp add: mult.commute)
  then have "(a * m) div c \<le> (m * c) div c" by (rule div_le_mono)
  with False show ?thesis by simp
qed

lemma newDimensions_bounded:
  "toUnsignedLong (fst (newDimensions m d)) \<le> m \<and> toUnsignedLong (snd (newDimensions m d)) \<le> m"
proof -
  obtain w h where d: "d = (w, h)" by (cases d)
  consider "w > h \<and> w > m" | "\<not> (w > h \<and> w > m)" "h > m" | "\<not> (w > h \<and> w > m)" "\<not> h > m"
    by blast
  then show ?thesis
  proof cases
    case 1
    then show ?thesis
      by (simp add: newDimensions_def d toUnsignedLong_of_nat toUnsignedLong_div scaled_le)
  next
    case 2
    then have "w \<le> h" by simp
    with 2 show ?thesis
      by (simp add: newDimensions_def d toUnsignedLong_of_nat toUnsignedLong_div scaled_le)
  next
    case 3
    then show ?thesis
      by (auto simp add: newDimensions_def d toUnsignedLong_of_nat)
  qed
qed

lemma compressImage_canvas:
  assumes "naturalSize br file = Some d"
  shows "\<exists>c. longest c \<le> m
    \<and> canvas_width c = toUnsignedLong (fst (newDimensions m d))
    \<and> canvas_height c = toUnsignedLong (snd (newDimensions m d))
    \<and> compressImage br m q file =
        (case toBlob br c ''image/jpeg'' q of
           Some blob \<Rightarrow> Some \<lparr>file_name = file_name file, file_type = ''image/jpeg'', file_bytes = blob\<rparr>
         | None \<Rightarrow> Some file)"
proof -
  let ?c = "\<lparr>canvas_width = toUnsignedLong (fst (newDimensions m d)),
            canvas_height = toUnsignedLong (snd (newDimensions m d)),
            canvas_drawn = (if context2d br then Some (file, fst (newDimensions m d), snd (newDimensions m d)) else None)\<rparr>"
  have "longest ?c \<le> m"
    using newDimensions_bounded [of m d] by (simp add: longest_def)
  moreover have "compressImage br m q file =
        (case toBlob br ?c ''image/jpeg'' q of
           Some blob \<Rightarrow> Some \<lparr>file_name = file_name file, file_type = ''image/jpeg'', file_bytes = blob\<rparr>
         | None \<Rightarrow> Some file)"
    using assms by (simp add: compressImage_def Let_def case_prod_beta)
  ultimately show ?thesis
    by (intro exI [of _ ?c]) simp
qed

text \<open>
  C6. For every input image, a file the browser loads, \<^verbatim>\<open>compressImage\<close> resolves to a file.
  The canvas it encodes has the dimensions the source computes, truncated to integers, and
  neither exceeds the maximum: 1200 in the single-image client, 720 in the multi-page
  client. When \<^verbatim>\<open>toBlob\<close> yields a blob the result has the type \<^verbatim>\<open>image/jpeg\<close>, the name of the
  input and the blob as its bytes; when it yields none the result is the input file
  itself, bytes and type unmodified.
\<close>

theorem compressImage_bounded_jpeg:
  "naturalSize br file = Some d \<longrightarrow>
     (\<exists>c. longest c \<le> 1200
        \<and> canvas_width c = toUnsignedLong (fst (newDimensions 1200 d))
        \<and> canvas_height c = toUnsignedLong (snd (newDimensions 1200 d))
        \<and> compressImage_single br file =
            (case toBlob br c ''image/jpeg'' (8 / 10) of
               Some blob \<Rightarrow> Some \<lparr>file_name = file_name file, file_type = ''image/jpeg'', file_bytes = blob\<rparr>
             | None \<Rightarrow> Some file))
     \<and> (\<exists>c. longest c \<le> 720
        \<and> canvas_width c = toUnsignedLong (fst (newDimensions 720 d))
        \<and> canvas_height c = toUnsignedLong (snd (newDimensions 720 d))
        \<and> compressImage_multi br file =
            (case toBlob br c ''image/jpeg'' (6 / 10) of
               Some blob \<Rightarrow> Some \<lparr>file_name = file_name file, file_type = ''image/jpeg'', file_bytes = blob\<rparr>
             | None \<Rightarrow> Some file))"
proof
  assume a: "naturalSize br file = Some d"
  show "(\<exists>c. longest c \<le> 1200
        \<and> canvas_width c = toUnsignedLong (fst (newDimensions 1200 d))
        \<and> canvas_height c = toUnsignedLong (snd (newDimensions 1200 d))
        \<and> compressImage_single br file =
            (case toBlob br c ''image/jpeg'' (8 / 10) of
               Some blob \<Rightarrow> Some \<lparr>file_name = file_name file, file_type = ''image/jpeg'', file_bytes = blob\<rparr>
             | None \<Rightarrow> Some file))
     \<and> (\<exists>c. longest c \<le> 720
        \<and> canvas_width c = toUnsignedLong (fst (newDimensions 720 d))
        \<and> canvas_height c = toUnsignedLong (snd (newDimensions 720 d))
        \<and> compressImage_multi br file =
            (case toBlob br c ''image/jpeg'' (6 / 10) of
               Some blob \<Rightarrow> Some \<lparr>file_name = file_name file, file_type = ''image/jpeg'', file_bytes = blob\<rparr>
             | None \<Rightarrow> Some file))"
    unfolding compressImage_single_def compressImage_multi_def
    using compressImage_canvas [OF a, of 1200 "8 / 10"] compressImage_canvas [OF a, of 720 "6 / 10"]
    by (intro conjI)
qed

theorem compressImage_bounded_jpeg_witness:
  "naturalSize example_browser \<lparr>file_name = ''a.png'', file_type = ''image/png'', file_bytes = [30, 10]\<rparr>
     = Some (30, 1000)
   \<and> (\<exists>c. longest c \<le> 720
        \<and> canvas_width c = 21 \<and> canvas_height c = 720
        \<and> compressImage_multi example_browser
             \<lparr>file_name = ''a.png'', file_type = ''image/png'', file_bytes = [30, 10]\<rparr> =
            (case toBlob example_browser c ''image/jpeg'' (6 / 10) of
               Some blob \<Rightarrow> Some \<lparr>file_name = ''a.png'', file_type = ''image/jpeg'', file_bytes = blob\<rparr>
             | None \<Rightarrow> Some \<lparr>file_name = ''a.png'', file_type = ''image/png'', file_bytes = [30, 10]\<rparr>))
   \<and> compressImage_multi example_browser
        \<lparr>file_name = ''a.png'', file_type = ''image/png'', file_bytes = [30, 10]\<rparr>
      = Some \<lparr>file_name = ''a.png'', file_type = ''image/jpeg'', file_bytes = [21, 7]\<rparr>
   \<and> compressImage_multi example_browser
        \<lparr>file_name = ''a.png'', file_type = ''image/png'', file_bytes = [1, 20]\<rparr>
      = Some \<lparr>file_name = ''a.png'', file_type = ''image/png'', file_bytes = [1, 20]\<rparr>"
proof -
  let ?f = "\<lparr>file_name = ''a.png'', file_type = ''image/png'', file_bytes = [30, 10]\<rparr>"
  have n: "naturalSize example_browser ?f = Some (30, 1000)"
    by (simp add: example_browser_def)
  from compressImage_bounded_jpeg [of example_browser ?f "(30, 1000)"] n
  have e: "\<exists>c. longest c \<le> 720
        \<and> canvas_width c = 21 \<and> canvas_height c = 720
        \<and> compressImage_multi example_browser ?f =
            (case toBlob example_browser c ''image/jpeg'' (6 / 10) of
               Some blob \<Rightarrow> Some \<lparr>file_name = ''a.png'', file_type = ''image/jpeg'', file_bytes = blob\<rparr>
             | None \<Rightarrow> Some ?f)"
    by (simp add: newDimensions_def toUnsignedLong_def floor_rat_numeral_div cong: option.case_cong)
  have 1: "compressImage_multi example_browser ?f
      = Some \<lparr>file_name = ''a.png'', file_type = ''image/jpeg'', file_bytes = [21, 7]\<rparr>"
    by (simp add: compressImage_multi_def compressImage_def example_browser_def newDimensions_def
          toUnsignedLong_def floor_rat_numeral_div)
  have 2: "compressImage_multi example_browser
        \<lparr>file_name = ''a.png'', file_type = ''image/png'', file_bytes = [1, 20]\<rparr>
      = Some \<lparr>file_name = ''a.png'', file_type = ''image/png'', file_bytes = [1, 20]\<rparr>"
    by (simp add: compressImage_multi_def compressImage_def example_browser_def newDimensions_def
          toUnsignedLong_def floor_rat_numeral_div)
  from n e 1 2 show ?thesis
    by (intro conjI)
qed


end
